theory Spec2Isabelle
  imports Main
begin

section \<open>Python values\<close>

text \<open>
  A Python \<open>str\<close> is a sequence of Unicode code points, so \<open>len\<close> and slicing count
  code points. The messages of both scripts contain characters outside ASCII, which are
  written below by their code points.
\<close>

type_synonym pystr = "nat list"

definition py :: "string \<Rightarrow> pystr" where
  "py cs = map of_char cs"

definition nl :: pystr where
  "nl = [10]"

definition rule60 :: "char \<Rightarrow> pystr" where
  "rule60 c = py (replicate 60 c)"

text \<open>\<open>needle in hay\<close> on strings: some suffix of \<open>hay\<close> starts with \<open>needle\<close>.\<close>

fun startswith :: "pystr \<Rightarrow> pystr \<Rightarrow> bool" where
  "startswith hay [] = True"
| "startswith [] (c # cs) = False"
| "startswith (h # hs) (c # cs) = (h = c \<and> startswith hs cs)"

fun str_in :: "pystr \<Rightarrow> pystr \<Rightarrow> bool" where
  "str_in needle [] = (needle = [])"
| "str_in needle (h # hs) = (startswith (h # hs) needle \<or> str_in needle hs)"

text \<open>\<open>str(None)\<close> is \<open>None\<close>; a string stays as it is.\<close>

definition str_opt :: "pystr option \<Rightarrow> pystr" where
  "str_opt v = (case v of None \<Rightarrow> py ''None'' | Some s \<Rightarrow> s)"

text \<open>\<open>str(n)\<close> for a non-negative integer.\<close>

definition digit :: "nat \<Rightarrow> nat" where
  "digit d = 48 + d"

function str_nat :: "nat \<Rightarrow> pystr" where
  "str_nat n = (if n < 10 then [digit n] else str_nat (n div 10) @ [digit (n mod 10)])"
  by pat_completeness auto
termination
  by (relation "measure (\<lambda>n. n)") auto

declare str_nat.simps [simp del]

text \<open>
  The literals the scripts build: dictionaries keep their insertion order, a float is kept
  as the literal the source writes.
\<close>

datatype pyval =
    PStr pystr
  | PInt int
  | PFloat string
  | PBool bool
  | PList "pyval list"
  | PDict "(pystr \<times> pyval) list"

type_synonym pydict = "(pystr \<times> pystr) list"

text \<open>\<open>d.get(k, default)\<close>\<close>

definition dict_get :: "pydict \<Rightarrow> pystr \<Rightarrow> pystr \<Rightarrow> pystr" where
  "dict_get d k dflt = (case map_of d k of None \<Rightarrow> dflt | Some v \<Rightarrow> v)"

section \<open>Exceptions\<close>

text \<open>
  The classes the scripts' \<open>except\<close> clauses tell apart:
  \<open>NoSuchEntityException\<close> is a subclass of \<open>ClientError\<close>, which is a subclass of
  \<open>Exception\<close>. \<open>OtherException\<close> stands for \<open>Exception\<close> and its other
  subclasses, so every exception is an instance of it.
  An exception carries the text \<open>str(e)\<close> that the diagnostics print. Provider calls
  fail with subclasses of \<open>Exception\<close>; \<open>KeyboardInterrupt\<close> and \<open>SystemExit\<close> are
  outside the model, so a bare \<open>except:\<close> and \<open>except Exception\<close> catch the same.
\<close>

datatype exn_class = NoSuchEntityException | ClientError | OtherException

datatype exn = Exn (exn_cls: exn_class) (exn_str: pystr)

fun isinstance :: "exn \<Rightarrow> exn_class \<Rightarrow> bool" where
  "isinstance e NoSuchEntityException = (exn_cls e = NoSuchEntityException)"
| "isinstance e ClientError = (exn_cls e = NoSuchEntityException \<or> exn_cls e = ClientError)"
| "isinstance e OtherException = True"

definition except_Exception :: "exn \<Rightarrow> bool" where
  "except_Exception e = True"

definition except_bare :: "exn \<Rightarrow> bool" where
  "except_bare e = True"

text \<open>
  The text of a botocore \<open>ClientError\<close>, from its error code, operation name, retry
  note and message:
  \<open>An error occurred (CODE) when calling the OPERATION operationRETRY: MESSAGE\<close>.
  The hosting service answers a describe call for an endpoint that does not exist with
  the error code \<open>ValidationException\<close>.
\<close>

definition client_error_str :: "pystr \<Rightarrow> pystr \<Rightarrow> pystr \<Rightarrow> pystr \<Rightarrow> pystr" where
  "client_error_str code operation retry_info message =
     py ''An error occurred ('' @ code @ py '') when calling the '' @ operation
       @ py '' operation'' @ retry_info @ py '': '' @ message"

definition endpoint_missing_error :: "pystr \<Rightarrow> pystr \<Rightarrow> pystr \<Rightarrow> exn" where
  "endpoint_missing_error operation retry_info message =
     Exn ClientError (client_error_str (py ''ValidationException'') operation retry_info message)"

section \<open>Provider interface\<close>

record iam_role =
  Arn :: pystr

record hf_kwargs =
  hf_model_data :: "pydict option"
  hf_transformers_version :: pystr
  hf_pytorch_version :: pystr
  hf_py_version :: pystr
  hf_role :: pystr
  hf_env :: "pydict option"

record serverless_config =
  memory_size_in_mb :: int
  max_concurrency :: int

record deploy_kwargs =
  kw_initial_instance_count :: "int option"
  kw_instance_type :: "pystr option"
  kw_serverless_inference_config :: "serverless_config option"
  kw_endpoint_name :: "pystr option"
  kw_wait :: "bool option"
  kw_tags :: "pydict list option"

record predictor =
  predictor_endpoint_name :: pystr

text \<open>
  What \<open>predict\<close> returns: the list of dictionaries that \<open>test_model\<close> indexes, and
  the text \<open>str(response)\<close> that \<open>deploy_model\<close> prints.
\<close>

record response =
  resp_items :: "pydict list"
  resp_str :: pystr

record endpoint_summary =
  EndpointName :: pystr
  EndpointStatus :: pystr
  CreationTime :: pystr

text \<open>
  Everything a run does to the outside world, in order: the lines it prints and the calls
  it makes, each with its arguments.
\<close>

datatype event =
    Print pystr
  | Boto3Client pystr
  | IamGetRole pystr
  | IamCreateRole pystr pyval pystr
  | IamAttachRolePolicy pystr pystr
  | TimeSleep nat
  | NewHuggingFaceModel hf_kwargs
  | NewServerlessInferenceConfig serverless_config
  | ModelDeploy hf_kwargs deploy_kwargs
  | PredictorPredict predictor pyval
  | Boto3SessionRegionName
  | SmListEndpoints
  | SmDeleteEndpoint pystr
  | SmDeleteEndpointConfig pystr
  | SmDescribeEndpoint pystr
  | SagemakerSession
  | SagemakerGetExecutionRole
  | NewPredictor pystr

type_synonym trace = "event list"

text \<open>
  The provider (the cloud service and its SDK, or a mock of them) answers each call from
  the whole history up to and including that call: it either raises or returns.
\<close>

record provider =
  boto3_client :: "trace \<Rightarrow> exn + unit"
  iam_get_role :: "trace \<Rightarrow> exn + iam_role"
  iam_create_role :: "trace \<Rightarrow> exn + iam_role"
  iam_attach_role_policy :: "trace \<Rightarrow> exn + unit"
  hf_HuggingFaceModel :: "trace \<Rightarrow> exn + unit"
  sl_ServerlessInferenceConfig :: "trace \<Rightarrow> exn + unit"
  hf_deploy :: "trace \<Rightarrow> exn + predictor"
  predictor_predict :: "trace \<Rightarrow> exn + response"
  boto3_Session_region_name :: "trace \<Rightarrow> exn + pystr option"
  sm_list_endpoints :: "trace \<Rightarrow> exn + endpoint_summary list"
  sm_delete_endpoint :: "trace \<Rightarrow> exn + unit"
  sm_delete_endpoint_config :: "trace \<Rightarrow> exn + unit"
  sm_describe_endpoint :: "trace \<Rightarrow> exn + pystr"
  sagemaker_Session :: "trace \<Rightarrow> exn + unit"
  sagemaker_get_execution_role :: "trace \<Rightarrow> exn + pystr"
  sagemaker_Predictor :: "trace \<Rightarrow> exn + predictor"

section \<open>Statements\<close>

text \<open>
  A statement takes the trace so far and gives back a value or a raised exception,
  with the extended trace.
\<close>

type_synonym 'a stmt = "trace \<Rightarrow> (exn + 'a) \<times> trace"

definition ret :: "'a \<Rightarrow> 'a stmt" where
  "ret x t = (Inr x, t)"

definition raise :: "exn \<Rightarrow> 'a stmt" where
  "raise e t = (Inl e, t)"

definition bnd :: "'a stmt \<Rightarrow> ('a \<Rightarrow> 'b stmt) \<Rightarrow> 'b stmt" where
  "bnd m f t = (case m t of (Inl e, t') \<Rightarrow> (Inl e, t') | (Inr x, t') \<Rightarrow> f x t')"

definition seq :: "unit stmt \<Rightarrow> 'a stmt \<Rightarrow> 'a stmt" where
  "seq m n = bnd m (\<lambda>_. n)"

fun block :: "unit stmt list \<Rightarrow> unit stmt" where
  "block [] = ret ()"
| "block (m # ms) = seq m (block ms)"

text \<open>\<open>try: body except C as e: handler\<close>\<close>

definition try_except :: "'a stmt \<Rightarrow> (exn \<Rightarrow> bool) \<Rightarrow> (exn \<Rightarrow> 'a stmt) \<Rightarrow> 'a stmt" where
  "try_except body catches handler t =
     (case body t of
        (Inl e, t') \<Rightarrow> if catches e then handler e t' else (Inl e, t')
      | (Inr x, t') \<Rightarrow> (Inr x, t'))"

definition print :: "pystr \<Rightarrow> unit stmt" where
  "print line t = (Inr (), t @ [Print line])"

definition sleep :: "nat \<Rightarrow> unit stmt" where
  "sleep secs t = (Inr (), t @ [TimeSleep secs])"

definition call :: "event \<Rightarrow> (trace \<Rightarrow> exn + 'a) \<Rightarrow> 'a stmt" where
  "call ev answer t = (answer (t @ [ev]), t @ [ev])"

section \<open>deploy-sagemaker-model.py\<close>

definition role_name :: pystr where
  "role_name = py ''SageMakerTravelAssistantRole''"

definition trust_policy :: pyval where
  "trust_policy =
     PDict [
       (py ''Version'', PStr (py ''2012-10-17'')),
       (py ''Statement'', PList [
          PDict [
            (py ''Effect'', PStr (py ''Allow'')),
            (py ''Principal'', PDict [(py ''Service'', PStr (py ''sagemaker.amazonaws.com''))]),
            (py ''Action'', PStr (py ''sts:AssumeRole''))
          ]])
     ]"

definition sagemaker_full_access :: pystr where
  "sagemaker_full_access = py ''arn:aws:iam::aws:policy/AmazonSageMakerFullAccess''"

text \<open>
  The argument of \<open>create_role\<close> is \<open>json.dumps(trust_policy)\<close>; the call is recorded
  with the document that is serialised.
\<close>

definition get_execution_role :: "provider \<Rightarrow> pystr stmt" where
  "get_execution_role p =
     try_except
       (bnd (call (Boto3Client (py ''iam'')) (boto3_client p)) (\<lambda>iam.
          try_except
            (bnd (call (IamGetRole role_name) (iam_get_role p)) (\<lambda>role.
             seq (print ([0x2713] @ py '' Using existing role: '' @ Arn role))
                 (ret (Arn role))))
            (\<lambda>e. isinstance e NoSuchEntityException)
            (\<lambda>e.
              seq (print (py ''Creating new IAM role: '' @ role_name))
             (bnd (call (IamCreateRole role_name trust_policy
                      (py ''Execution role for Travel Assistant SageMaker endpoint''))
                    (iam_create_role p)) (\<lambda>role.
              seq (call (IamAttachRolePolicy role_name sagemaker_full_access)
                    (iam_attach_role_policy p))
             (seq (print (py ''Waiting for role to propagate...''))
             (seq (sleep 10)
             (seq (print ([0x2713] @ py '' Created role: '' @ Arn role))
                  (ret (Arn role))))))))))
       except_Exception
       (\<lambda>e.
          seq (block [
            print (py ''Error with IAM role: '' @ exn_str e),
            print (nl @ py ''Please manually create a SageMaker execution role with:''),
            print (py ''1. Trust policy for sagemaker.amazonaws.com''),
            print (py ''2. AmazonSageMakerFullAccess policy attached'')])
          (raise e))"

definition get_estimated_cost :: "pystr \<Rightarrow> pystr" where
  "get_estimated_cost instance_type =
     dict_get [
       (py ''ml.t2.medium'', py ''0.065''),
       (py ''ml.t2.large'', py ''0.130''),
       (py ''ml.m5.large'', py ''0.134''),
       (py ''ml.g4dn.xlarge'', py ''0.736''),
       (py ''ml.inf1.xlarge'', py ''0.228'')] instance_type (py ''unknown'')"

definition model_data :: pydict where
  "model_data = [
     (py ''HF_MODEL_ID'', py ''facebook/blenderbot-400M-distill''),
     (py ''HF_TASK'', py ''conversational'')]"

definition deploy_model_descriptor :: "pystr \<Rightarrow> hf_kwargs" where
  "deploy_model_descriptor role = \<lparr>
     hf_model_data = Some model_data,
     hf_transformers_version = py ''4.26.0'',
     hf_pytorch_version = py ''1.13.1'',
     hf_py_version = py ''py39'',
     hf_role = role,
     hf_env = Some [
       (py ''HF_MODEL_ID'', py ''facebook/blenderbot-400M-distill''),
       (py ''HF_TASK'', py ''conversational''),
       (py ''MAX_LENGTH'', py ''512''),
       (py ''TEMPERATURE'', py ''0.7'')] \<rparr>"

definition instance_hosting :: "pystr \<Rightarrow> pystr \<Rightarrow> deploy_kwargs" where
  "instance_hosting instance_type endpoint_name = \<lparr>
     kw_initial_instance_count = Some 1,
     kw_instance_type = Some instance_type,
     kw_serverless_inference_config = None,
     kw_endpoint_name = Some endpoint_name,
     kw_wait = None,
     kw_tags = None \<rparr>"

definition test_payload :: pyval where
  "test_payload = PDict [(py ''inputs'', PStr (py ''Hello! I want to plan a trip to Japan.''))]"

text \<open>
  An \<open>except\<close> handler that ends in \<open>return\<close> leaves the function: the guarded
  statement yields \<open>None\<close> there, and the rest of the function runs on \<open>Some\<close> only.
\<close>

definition deploy_model :: "provider \<Rightarrow> pystr \<Rightarrow> pystr \<Rightarrow> unit stmt" where
  "deploy_model p instance_type endpoint_name =
     seq (block [
       print (nl @ rule60 CHR ''=''),
       print ([0x1F680] @ py '' SageMaker Travel AI Assistant Deployment''),
       print (rule60 CHR ''='' @ nl)])
    (bnd (try_except
            (bnd (get_execution_role p) (\<lambda>role. ret (Some role)))
            except_Exception
            (\<lambda>e. seq (print ([0x274C] @ py '' Failed to get execution role: '' @ exn_str e))
                     (ret None)))
       (\<lambda>got. case got of None \<Rightarrow> ret () | Some role \<Rightarrow>
     seq (block [
       print (nl @ [0x1F4E6] @ py '' Preparing Hugging Face model...''),
       print (py ''   Model: facebook/blenderbot-400M-distill''),
       print (py ''   Instance: '' @ instance_type),
       print (py ''   Endpoint: '' @ endpoint_name)])
    (bnd (try_except
            (bnd (call (NewHuggingFaceModel (deploy_model_descriptor role))
                    (hf_HuggingFaceModel p)) (\<lambda>_.
             seq (print ([0x2713] @ py '' Model configuration created''))
                 (ret (Some (deploy_model_descriptor role)))))
            except_Exception
            (\<lambda>e. seq (print ([0x274C] @ py '' Failed to create model: '' @ exn_str e))
                     (ret None)))
       (\<lambda>built. case built of None \<Rightarrow> ret () | Some huggingface_model \<Rightarrow>
     seq (block [
       print (nl @ [0x1F680] @ py '' Deploying model to endpoint: '' @ endpoint_name),
       print ([0x23F3] @ py '' This may take 5-10 minutes...'')])
    (try_except
       (bnd (call (ModelDeploy huggingface_model (instance_hosting instance_type endpoint_name))
               (hf_deploy p)) (\<lambda>predictor.
        seq (block [
          print (nl @ rule60 CHR ''=''),
          print ([0x2705] @ py '' DEPLOYMENT SUCCESSFUL!''),
          print (rule60 CHR ''=''),
          print (nl @ [0x1F4CD] @ py '' Endpoint Name: '' @ endpoint_name)])
       (bnd (call Boto3SessionRegionName (boto3_Session_region_name p)) (\<lambda>region1.
        seq (block [
          print ([0x1F517] @ py '' Region: '' @ str_opt region1),
          print ([0x1F4B0] @ py '' Instance Type: '' @ instance_type),
          print (nl @ [0x2699, 0xFE0F] @ py ''  Update your backend .env file:''),
          print (py ''   SAGEMAKER_ENDPOINT_NAME='' @ endpoint_name)])
       (bnd (call Boto3SessionRegionName (boto3_Session_region_name p)) (\<lambda>region2.
        seq (block [
          print (py ''   AWS_REGION='' @ str_opt region2),
          print (nl @ [0x1F9EA] @ py '' Testing endpoint...'')])
       (bnd (call (PredictorPredict predictor test_payload) (predictor_predict p)) (\<lambda>response.
        block [
          print ([0x2713] @ py '' Test response: '' @ resp_str response),
          print (nl @ [0x1F4CA] @ py '' Estimated Cost:''),
          print (py ''   ~$'' @ get_estimated_cost instance_type @ py ''/hour''),
          print (nl @ [0x1F4A1] @ py '' To delete endpoint later, run:''),
          print (py ''   aws sagemaker delete-endpoint --endpoint-name '' @ endpoint_name)
        ]))))))))
       except_Exception
       (\<lambda>e. block [
          print (nl @ [0x274C] @ py '' Deployment failed: '' @ exn_str e),
          print (nl @ py ''Troubleshooting:''),
          print (py ''1. Check AWS credentials are configured''),
          print (py ''2. Verify IAM role has correct permissions''),
          print (py ''3. Ensure you have SageMaker quota for instance type''),
          print (py ''4. Check CloudWatch logs for details'')]))))))"

definition serverless_descriptor :: "pystr \<Rightarrow> hf_kwargs" where
  "serverless_descriptor role = \<lparr>
     hf_model_data = Some model_data,
     hf_transformers_version = py ''4.26.0'',
     hf_pytorch_version = py ''1.13.1'',
     hf_py_version = py ''py39'',
     hf_role = role,
     hf_env = None \<rparr>"

definition serverless_4096_10 :: serverless_config where
  "serverless_4096_10 = \<lparr> memory_size_in_mb = 4096, max_concurrency = 10 \<rparr>"

definition serverless_hosting :: "pystr \<Rightarrow> deploy_kwargs" where
  "serverless_hosting endpoint_name = \<lparr>
     kw_initial_instance_count = None,
     kw_instance_type = None,
     kw_serverless_inference_config = Some serverless_4096_10,
     kw_endpoint_name = Some endpoint_name,
     kw_wait = None,
     kw_tags = None \<rparr>"

definition deploy_serverless :: "provider \<Rightarrow> pystr \<Rightarrow> unit stmt" where
  "deploy_serverless p endpoint_name =
     seq (block [
       print (nl @ rule60 CHR ''=''),
       print ([0x1F680] @ py '' SageMaker Serverless Deployment''),
       print (rule60 CHR ''='' @ nl)])
    (bnd (try_except
            (bnd (get_execution_role p) (\<lambda>role. ret (Some role)))
            except_Exception
            (\<lambda>e. seq (print ([0x274C] @ py '' Failed to get execution role: '' @ exn_str e))
                     (ret None)))
       (\<lambda>got. case got of None \<Rightarrow> ret () | Some role \<Rightarrow>
     seq (print (nl @ [0x1F4E6] @ py '' Preparing serverless deployment...''))
    (try_except
       (bnd (call (NewHuggingFaceModel (serverless_descriptor role))
               (hf_HuggingFaceModel p)) (\<lambda>_.
        bnd (call (NewServerlessInferenceConfig serverless_4096_10)
               (sl_ServerlessInferenceConfig p)) (\<lambda>_.
        seq (print ([0x1F680] @ py '' Deploying serverless endpoint...''))
       (bnd (call (ModelDeploy (serverless_descriptor role) (serverless_hosting endpoint_name))
               (hf_deploy p)) (\<lambda>predictor.
        block [
          print (nl @ [0x2705] @ py '' Serverless deployment successful!''),
          print ([0x1F4CD] @ py '' Endpoint: '' @ endpoint_name),
          print (nl @ [0x1F4B0] @ py '' Pricing: Pay only for inference time''),
          print (py ''   No charges when idle!'')])))))
       except_Exception
       (\<lambda>e. print ([0x274C] @ py '' Serverless deployment failed: '' @ exn_str e)))))"

definition print_endpoint :: "endpoint_summary \<Rightarrow> unit stmt" where
  "print_endpoint endpoint = block [
     print (py ''   Name: '' @ EndpointName endpoint),
     print (py ''   Status: '' @ EndpointStatus endpoint),
     print (py ''   Created: '' @ CreationTime endpoint),
     print (rule60 CHR ''-'')]"

definition list_endpoints :: "provider \<Rightarrow> unit stmt" where
  "list_endpoints p =
     try_except
       (bnd (call (Boto3Client (py ''sagemaker'')) (boto3_client p)) (\<lambda>sm.
        bnd (call SmListEndpoints (sm_list_endpoints p)) (\<lambda>endpoints.
        if endpoints = [] then print (py ''No endpoints found'')
        else
          seq (block [
            print (nl @ [0x1F4CD] @ py '' Existing SageMaker Endpoints:''),
            print (rule60 CHR ''-'')])
          (block (map print_endpoint endpoints)))))
       except_Exception
       (\<lambda>e. print (py ''Error listing endpoints: '' @ exn_str e))"

definition delete_endpoint :: "provider \<Rightarrow> pystr \<Rightarrow> unit stmt" where
  "delete_endpoint p endpoint_name =
     try_except
       (bnd (call (Boto3Client (py ''sagemaker'')) (boto3_client p)) (\<lambda>sm.
        seq (print ([0x1F5D1, 0xFE0F] @ py ''  Deleting endpoint: '' @ endpoint_name))
       (seq (call (SmDeleteEndpoint endpoint_name) (sm_delete_endpoint p))
       (seq (print ([0x2713] @ py '' Endpoint deleted successfully''))
            (try_except
               (seq (call (SmDeleteEndpointConfig endpoint_name) (sm_delete_endpoint_config p))
                    (print ([0x2713] @ py '' Endpoint config deleted'')))
               except_bare
               (\<lambda>e. ret ()))))))
       except_Exception
       (\<lambda>e. print (py ''Error deleting endpoint: '' @ exn_str e))"

text \<open>
  The namespace that \<open>argparse\<close> hands to the dispatch: \<open>--delete\<close> is \<open>None\<close> when
  absent, the flags are \<open>False\<close> when absent. An empty \<open>--delete\<close> value is falsy.
\<close>

record cli_args =
  arg_instance_type :: pystr
  arg_endpoint_name :: pystr
  arg_serverless :: bool
  arg_list :: bool
  arg_delete :: "pystr option"

definition default_args :: cli_args where
  "default_args = \<lparr>
     arg_instance_type = py ''ml.t2.medium'',
     arg_endpoint_name = py ''travel-assistant-endpoint'',
     arg_serverless = False,
     arg_list = False,
     arg_delete = None \<rparr>"

definition truthy :: "pystr option \<Rightarrow> bool" where
  "truthy v = (case v of None \<Rightarrow> False | Some s \<Rightarrow> s \<noteq> [])"

definition model_main :: "provider \<Rightarrow> cli_args \<Rightarrow> unit stmt" where
  "model_main p args =
     (if arg_list args then list_endpoints p
      else if truthy (arg_delete args) then
        (case arg_delete args of None \<Rightarrow> ret () | Some name \<Rightarrow> delete_endpoint p name)
      else if arg_serverless args then deploy_serverless p (arg_endpoint_name args)
      else deploy_model p (arg_instance_type args) (arg_endpoint_name args))"

section \<open>scripts/deploy-sagemaker.py\<close>

definition test_queries :: "pystr list" where
  "test_queries = [
     py ''Plan a 3-day itinerary for Paris'',
     py ''What are the best travel tips for Japan?'',
     py ''Recommend activities for a family vacation in Orlando'']"

definition query_payload :: "pystr \<Rightarrow> pyval" where
  "query_payload query =
     PDict [
       (py ''inputs'', PStr (py ''You are a helpful travel assistant. '' @ query)),
       (py ''parameters'', PDict [
          (py ''max_new_tokens'', PInt 200),
          (py ''temperature'', PFloat ''0.7''),
          (py ''top_p'', PFloat ''0.9''),
          (py ''do_sample'', PBool True)])]"

text \<open>\<open>response[0]\<close> raises \<open>IndexError\<close> on an empty list.\<close>

definition first_item :: "pydict list \<Rightarrow> pydict stmt" where
  "first_item items =
     (case items of
        [] \<Rightarrow> raise (Exn OtherException (py ''list index out of range''))
      | d # _ \<Rightarrow> ret d)"

definition test_query :: "provider \<Rightarrow> predictor \<Rightarrow> nat \<Rightarrow> pystr \<Rightarrow> unit stmt" where
  "test_query p predictor i query =
     try_except
       (seq (print (nl @ [0x1F50D] @ py '' Test '' @ str_nat i @ py '': '' @ query))
       (bnd (call (PredictorPredict predictor (query_payload query)) (predictor_predict p))
          (\<lambda>response.
        bnd (first_item (resp_items response)) (\<lambda>d.
        print ([0x2705] @ py '' Response: ''
                 @ take 200 (dict_get d (py ''generated_text'') (py ''No response''))
                 @ py ''...'')))))
       except_Exception
       (\<lambda>e. print ([0x274C] @ py '' Test '' @ str_nat i @ py '' failed: '' @ exn_str e))"

text \<open>The loop \<open>for i, query in enumerate(test_queries, 1)\<close>, from index \<open>i\<close> on.\<close>

fun test_loop :: "provider \<Rightarrow> predictor \<Rightarrow> nat \<Rightarrow> pystr list \<Rightarrow> unit stmt" where
  "test_loop p predictor i [] = ret ()"
| "test_loop p predictor i (query # queries) =
     seq (test_query p predictor i query) (test_loop p predictor (Suc i) queries)"

definition test_model :: "provider \<Rightarrow> predictor \<Rightarrow> unit stmt" where
  "test_model p predictor =
     seq (print (nl @ [0x1F9EA] @ py '' Testing deployed model...''))
         (test_loop p predictor 1 test_queries)"

definition travel_descriptor :: "pystr \<Rightarrow> hf_kwargs" where
  "travel_descriptor role = \<lparr>
     hf_model_data = None,
     hf_transformers_version = py ''4.28'',
     hf_pytorch_version = py ''2.0'',
     hf_py_version = py ''py310'',
     hf_role = role,
     hf_env = Some [
       (py ''HF_MODEL_ID'', py ''microsoft/DialoGPT-large''),
       (py ''HF_TASK'', py ''text-generation''),
       (py ''MAX_LENGTH'', py ''1000''),
       (py ''TEMPERATURE'', py ''0.7''),
       (py ''TOP_P'', py ''0.9''),
       (py ''DO_SAMPLE'', py ''true''),
       (py ''REPETITION_PENALTY'', py ''1.1''),
       (py ''TRAVEL_CONTEXT'', py ''true''),
       (py ''SYSTEM_PROMPT'', py (''You are an expert AI travel assistant. Help users plan trips, ''
          @ ''provide travel advice, and answer travel-related questions with enthusiasm ''
          @ ''and detailed information.''))] \<rparr>"

definition travel_hosting :: deploy_kwargs where
  "travel_hosting = \<lparr>
     kw_initial_instance_count = None,
     kw_instance_type = None,
     kw_serverless_inference_config = Some serverless_4096_10,
     kw_endpoint_name = Some (py ''travel-assistant-endpoint''),
     kw_wait = Some True,
     kw_tags = Some [
       [(py ''Key'', py ''Project''), (py ''Value'', py ''TravelCompanion'')],
       [(py ''Key'', py ''Environment''), (py ''Value'', py ''Production'')],
       [(py ''Key'', py ''Model''), (py ''Value'', py ''DialoGPT-Travel'')]] \<rparr>"

definition deploy_travel_model :: "provider \<Rightarrow> pystr option stmt" where
  "deploy_travel_model p =
     seq (print ([0x1F680] @ py '' Starting SageMaker model deployment for Travel Assistant...''))
    (bnd (try_except
            (bnd (call SagemakerSession (sagemaker_Session p)) (\<lambda>sess.
             bnd (call SagemakerGetExecutionRole (sagemaker_get_execution_role p)) (\<lambda>role.
             seq (print ([0x2705] @ py '' Using SageMaker execution role: '' @ role))
                 (ret (Some role)))))
            except_Exception
            (\<lambda>e. seq (block [
                 print ([0x274C] @ py '' Error getting SageMaker role: '' @ exn_str e),
                 print ([0x1F4A1] @ py ('' Make sure you're running this from a SageMaker ''
                          @ ''environment or set the role manually''))])
               (ret None)))
       (\<lambda>got. case got of None \<Rightarrow> ret None | Some role \<Rightarrow>
     seq (call (NewHuggingFaceModel (travel_descriptor role)) (hf_HuggingFaceModel p))
    (seq (call (NewServerlessInferenceConfig serverless_4096_10) (sl_ServerlessInferenceConfig p))
    (try_except
       (seq (block [
          print ([0x1F4E6] @ py '' Deploying model to SageMaker serverless endpoint...''),
          print ([0x23F3] @ py '' This may take 5-10 minutes...'')])
       (bnd (call (ModelDeploy (travel_descriptor role) travel_hosting) (hf_deploy p))
          (\<lambda>predictor.
        seq (block [
          print ([0x2705] @ py '' Model deployed successfully!''),
          print ([0x1F517] @ py '' Endpoint name: '' @ predictor_endpoint_name predictor)])
       (seq (test_model p predictor)
            (ret (Some (predictor_endpoint_name predictor)))))))
       except_Exception
       (\<lambda>e. seq (print ([0x274C] @ py '' Deployment failed: '' @ exn_str e))
                (ret None))))))"

definition report_status :: "pystr \<Rightarrow> unit stmt" where
  "report_status status =
     (if status = py ''InService'' then
        print ([0x2705] @ py '' Endpoint is ready for inference!'')
      else if status \<in> set [py ''Creating'', py ''Updating''] then
        print ([0x23F3] @ py '' Endpoint is being deployed...'')
      else
        print ([0x26A0, 0xFE0F] @ py '' Endpoint status: '' @ status))"

definition apostrophe :: pystr where
  "apostrophe = [39]"

definition not_found_line :: "pystr \<Rightarrow> pystr" where
  "not_found_line endpoint_name =
     [0x274C] @ py '' Endpoint '' @ apostrophe @ endpoint_name @ apostrophe @ py '' not found''"

definition generic_error_line :: "exn \<Rightarrow> pystr" where
  "generic_error_line e = [0x274C] @ py '' Error checking endpoint: '' @ exn_str e"

definition check_endpoint_status :: "provider \<Rightarrow> pystr \<Rightarrow> pystr option stmt" where
  "check_endpoint_status p endpoint_name =
     bnd (call (Boto3Client (py ''sagemaker'')) (boto3_client p)) (\<lambda>client.
     try_except
       (bnd (call (SmDescribeEndpoint endpoint_name) (sm_describe_endpoint p)) (\<lambda>status.
        seq (print ([0x1F4CA] @ py '' Endpoint '' @ apostrophe @ endpoint_name @ apostrophe
                      @ py '' status: '' @ status))
       (seq (report_status status)
            (ret (Some status)))))
       (\<lambda>e. isinstance e ClientError)
       (\<lambda>e.
          seq (if str_in (py ''ValidationException'') (exn_str e)
               then print (not_found_line endpoint_name)
               else print (generic_error_line e))
              (ret None)))"

definition cleanup_endpoint :: "provider \<Rightarrow> pystr \<Rightarrow> unit stmt" where
  "cleanup_endpoint p endpoint_name =
     bnd (call (Boto3Client (py ''sagemaker'')) (boto3_client p)) (\<lambda>client.
     try_except
       (seq (print ([0x1F5D1, 0xFE0F] @ py '' Deleting endpoint: '' @ endpoint_name))
       (seq (call (SmDeleteEndpoint endpoint_name) (sm_delete_endpoint p))
       (seq (print ([0x2705] @ py '' Endpoint deletion initiated''))
            (try_except
               (seq (call (SmDeleteEndpointConfig endpoint_name) (sm_delete_endpoint_config p))
                    (print ([0x2705] @ py '' Endpoint configuration deleted'')))
               except_bare
               (\<lambda>e. ret ())))))
       except_Exception
       (\<lambda>e. print ([0x274C] @ py '' Error deleting endpoint: '' @ exn_str e)))"

datatype action = Deploy | Status | Test | Cleanup

record script_args =
  arg_action :: action
  arg_endpoint :: pystr

definition default_script_args :: script_args where
  "default_script_args = \<lparr> arg_action = Deploy, arg_endpoint = py ''travel-assistant-endpoint'' \<rparr>"

definition suggest_env :: "pystr \<Rightarrow> unit stmt" where
  "suggest_env endpoint_name = block [
     print (nl @ [0x1F389] @ py '' Deployment complete!''),
     print ([0x1F4DD] @ py '' Update your .env file with: SAGEMAKER_ENDPOINT_NAME='' @ endpoint_name)]"

definition main :: "provider \<Rightarrow> script_args \<Rightarrow> unit stmt" where
  "main p args =
     (case arg_action args of
        Deploy \<Rightarrow>
          bnd (deploy_travel_model p) (\<lambda>endpoint_name.
          if truthy endpoint_name
          then (case endpoint_name of None \<Rightarrow> ret () | Some name \<Rightarrow> suggest_env name)
          else ret ())
      | Status \<Rightarrow>
          bnd (check_endpoint_status p (arg_endpoint args)) (\<lambda>_. ret ())
      | Test \<Rightarrow>
          bnd (call SagemakerSession (sagemaker_Session p)) (\<lambda>session.
          bnd (call (NewPredictor (arg_endpoint args)) (sagemaker_Predictor p)) (\<lambda>predictor.
          test_model p predictor))
      | Cleanup \<Rightarrow> cleanup_endpoint p (arg_endpoint args))"

section \<open>Observing a run\<close>

text \<open>The events a run adds to the trace it started from.\<close>

definition new_events :: "trace \<Rightarrow> 'a \<times> trace \<Rightarrow> trace" where
  "new_events t run = drop (length t) (snd run)"

fun is_create_role :: "event \<Rightarrow> bool" where
  "is_create_role (IamCreateRole _ _ _) = True"
| "is_create_role _ = False"

fun is_attach_role_policy :: "event \<Rightarrow> bool" where
  "is_attach_role_policy (IamAttachRolePolicy _ _) = True"
| "is_attach_role_policy _ = False"

text \<open>\<open>d[k]\<close> and \<open>xs[0]\<close> on literals, and the path
  \<open>doc['Statement'][0]['Principal']['Service']\<close> of a trust policy.\<close>

fun pv_item :: "pyval \<Rightarrow> pystr \<Rightarrow> pyval option" where
  "pv_item (PDict kvs) k = map_of kvs k"
| "pv_item _ k = None"

fun pv_first :: "pyval \<Rightarrow> pyval option" where
  "pv_first (PList (x # _)) = Some x"
| "pv_first _ = None"

definition trust_principal :: "pyval \<Rightarrow> pyval option" where
  "trust_principal doc =
     Option.bind (pv_item doc (py ''Statement'')) (\<lambda>statements.
     Option.bind (pv_first statements) (\<lambda>statement.
     Option.bind (pv_item statement (py ''Principal'')) (\<lambda>principal.
     pv_item principal (py ''Service''))))"

text \<open>
  A statement emits \<open>P\<close> when, from every trace, it only appends events, and every
  event it appends satisfies \<open>P\<close>.
\<close>

definition emits :: "(event \<Rightarrow> bool) \<Rightarrow> 'a stmt \<Rightarrow> bool" where
  "emits P m = (\<forall>t. \<exists>evs. snd (m t) = t @ evs \<and> list_all P evs)"

text \<open>
  The hosting variant a deploy call must carry for the given command line: with
  \<open>--serverless\<close> the memory and concurrency configuration and neither instance
  argument, otherwise the instance type and count and no serverless configuration.
\<close>

definition hosting_ok :: "cli_args \<Rightarrow> event \<Rightarrow> bool" where
  "hosting_ok args ev =
     (case ev of
        ModelDeploy m kw \<Rightarrow>
          (if arg_serverless args
           then kw_serverless_inference_config kw
                  = Some \<lparr> memory_size_in_mb = 4096, max_concurrency = 10 \<rparr>
              \<and> kw_instance_type kw = None \<and> kw_initial_instance_count kw = None
           else kw_serverless_inference_config kw = None
              \<and> kw_instance_type kw = Some (arg_instance_type args)
              \<and> kw_initial_instance_count kw = Some 1)
      | _ \<Rightarrow> True)"

fun is_deploy :: "event \<Rightarrow> bool" where
  "is_deploy (ModelDeploy _ _) = True"
| "is_deploy _ = False"

text \<open>The calls of a run: everything that is not a printed line.\<close>

fun is_print :: "event \<Rightarrow> bool" where
  "is_print (Print _) = True"
| "is_print _ = False"

definition calls :: "trace \<Rightarrow> trace" where
  "calls evs = filter (\<lambda>ev. \<not> is_print ev) evs"

text \<open>
  A statement yields \<open>x\<close> when every run of it returns \<open>x\<close>; it deploys once when
  every run of it only appends events, exactly one of them a deploy call, the call
  \<open>d\<close>.
\<close>

definition yields :: "'a \<Rightarrow> 'a stmt \<Rightarrow> bool" where
  "yields x m = (\<forall>t. fst (m t) = Inr x)"

definition deploys_once :: "event \<Rightarrow> 'a stmt \<Rightarrow> bool" where
  "deploys_once d m = (\<forall>t. \<exists>evs. snd (m t) = t @ evs \<and> filter is_deploy evs = [d])"

section \<open>Failures and diagnostics\<close>




text \<open>
  Two failures are handled without a diagnostic: the role lookup that signals that the
  role does not exist (the role is created), and a failed deletion of the endpoint
  configuration (ignored).
\<close>

fun quiet :: "event \<Rightarrow> exn \<Rightarrow> bool" where
  "quiet (IamGetRole _) e = isinstance e NoSuchEntityException"
| "quiet (SmDeleteEndpointConfig _) e = True"
| "quiet _ e = False"






definition returns :: "'a stmt \<Rightarrow> bool" where
  "returns m = (\<forall>t. \<exists>x. fst (m t) = Inr x)"

section \<open>The smoke tester and the travel deployment, event by event\<close>

text \<open>
  The lines \<open>test_model\<close> prints for one prompt (the announcement, then either the
  truncated response or the failure), the three events of one prompt, and the events of
  the loop over the prompts from index \<open>i\<close> on.
\<close>

fun is_predict :: "event \<Rightarrow> bool" where
  "is_predict (PredictorPredict _ _) = True"
| "is_predict _ = False"

definition test_line :: "nat \<Rightarrow> pystr \<Rightarrow> pystr" where
  "test_line i query = nl @ [0x1F50D] @ py '' Test '' @ str_nat i @ py '': '' @ query"

definition failed_line :: "nat \<Rightarrow> pystr \<Rightarrow> pystr" where
  "failed_line i text = [0x274C] @ py '' Test '' @ str_nat i @ py '' failed: '' @ text"

definition response_line :: "pystr \<Rightarrow> pystr" where
  "response_line generated_text = [0x2705] @ py '' Response: '' @ take 200 generated_text @ py ''...''"

definition outcome_line :: "nat \<Rightarrow> exn + response \<Rightarrow> pystr" where
  "outcome_line i answer =
     (case answer of
        Inl e \<Rightarrow> failed_line i (exn_str e)
      | Inr response \<Rightarrow>
          (case resp_items response of
             [] \<Rightarrow> failed_line i (py ''list index out of range'')
           | d # _ \<Rightarrow> response_line (dict_get d (py ''generated_text'') (py ''No response''))))"

definition query_events :: "provider \<Rightarrow> predictor \<Rightarrow> nat \<Rightarrow> pystr \<Rightarrow> trace \<Rightarrow> event list" where
  "query_events p predictor i query t =
     [Print (test_line i query),
      PredictorPredict predictor (query_payload query),
      Print (outcome_line i (predictor_predict p
         (t @ [Print (test_line i query), PredictorPredict predictor (query_payload query)])))]"

fun test_events :: "provider \<Rightarrow> predictor \<Rightarrow> nat \<Rightarrow> pystr list \<Rightarrow> trace \<Rightarrow> event list" where
  "test_events p predictor i [] t = []"
| "test_events p predictor i (query # queries) t =
     query_events p predictor i query t
       @ test_events p predictor (Suc i) queries (t @ query_events p predictor i query t)"

text \<open>
  The line with which \<open>main\<close> suggests the \<open>.env\<close> entry, and the stages of
  \<open>deploy_travel_model\<close>: the events up to the role, whether the role was acquired,
  whether the descriptor and the serverless configuration were built, and the answer to
  the deploy call.
\<close>

definition suggestion_line :: "pystr \<Rightarrow> pystr" where
  "suggestion_line endpoint_name =
     [0x1F4DD] @ py '' Update your .env file with: SAGEMAKER_ENDPOINT_NAME='' @ endpoint_name"

definition is_suggestion :: "event \<Rightarrow> bool" where
  "is_suggestion ev =
     (case ev of
        Print line \<Rightarrow>
          startswith line ([0x1F4DD] @ py '' Update your .env file with: SAGEMAKER_ENDPOINT_NAME='')
      | _ \<Rightarrow> False)"

definition travel_start :: event where
  "travel_start = Print ([0x1F680] @ py '' Starting SageMaker model deployment for Travel Assistant...'')"

definition role_fails :: "provider \<Rightarrow> trace \<Rightarrow> bool" where
  "role_fails p t =
     (isl (sagemaker_Session p (t @ [travel_start, SagemakerSession]))
      \<or> isl (sagemaker_get_execution_role p
            (t @ [travel_start, SagemakerSession, SagemakerGetExecutionRole])))"

definition travel_prelude :: "pystr \<Rightarrow> event list" where
  "travel_prelude role =
     [travel_start, SagemakerSession, SagemakerGetExecutionRole,
      Print ([0x2705] @ py '' Using SageMaker execution role: '' @ role)]"

definition role_acquired :: "provider \<Rightarrow> trace \<Rightarrow> pystr \<Rightarrow> bool" where
  "role_acquired p t role =
     (sagemaker_Session p (t @ [travel_start, SagemakerSession]) = Inr ()
      \<and> sagemaker_get_execution_role p
            (t @ [travel_start, SagemakerSession, SagemakerGetExecutionRole]) = Inr role)"

definition descriptor_built :: "provider \<Rightarrow> trace \<Rightarrow> pystr \<Rightarrow> bool" where
  "descriptor_built p t role =
     (hf_HuggingFaceModel p (t @ travel_prelude role @ [NewHuggingFaceModel (travel_descriptor role)])
        = Inr ()
      \<and> sl_ServerlessInferenceConfig p
          (t @ travel_prelude role @ [NewHuggingFaceModel (travel_descriptor role),
             NewServerlessInferenceConfig serverless_4096_10]) = Inr ())"

definition deploy_answer :: "provider \<Rightarrow> trace \<Rightarrow> pystr \<Rightarrow> exn + predictor" where
  "deploy_answer p t role =
     hf_deploy p
       (t @ travel_prelude role @
         [NewHuggingFaceModel (travel_descriptor role),
          NewServerlessInferenceConfig serverless_4096_10,
          Print ([0x1F4E6] @ py '' Deploying model to SageMaker serverless endpoint...''),
          Print ([0x23F3] @ py '' This may take 5-10 minutes...''),
          ModelDeploy (travel_descriptor role) travel_hosting])"

section \<open>Mock providers\<close>

definition mock_role :: iam_role where
  "mock_role = \<lparr> Arn = py ''arn:aws:iam::123456789012:role/SageMakerTravelAssistantRole'' \<rparr>"

definition mock_predictor :: predictor where
  "mock_predictor = \<lparr> predictor_endpoint_name = py ''travel-assistant-endpoint'' \<rparr>"

definition mock_response :: response where
  "mock_response = \<lparr>
     resp_items = [[(py ''generated_text'', py (replicate 300 CHR ''a''))]],
     resp_str = py ''[{'generated_text': '' @ apostrophe @ py (replicate 300 CHR ''a'')
       @ apostrophe @ py ''}]'' \<rparr>"

text \<open>A provider on which every call succeeds: the role exists, the endpoint is in service.\<close>

definition mock_provider :: provider where
  "mock_provider = \<lparr>
     boto3_client = (\<lambda>_. Inr ()),
     iam_get_role = (\<lambda>_. Inr mock_role),
     iam_create_role = (\<lambda>_. Inr mock_role),
     iam_attach_role_policy = (\<lambda>_. Inr ()),
     hf_HuggingFaceModel = (\<lambda>_. Inr ()),
     sl_ServerlessInferenceConfig = (\<lambda>_. Inr ()),
     hf_deploy = (\<lambda>_. Inr mock_predictor),
     predictor_predict = (\<lambda>_. Inr mock_response),
     boto3_Session_region_name = (\<lambda>_. Inr (Some (py ''us-east-1''))),
     sm_list_endpoints = (\<lambda>_. Inr []),
     sm_delete_endpoint = (\<lambda>_. Inr ()),
     sm_delete_endpoint_config = (\<lambda>_. Inr ()),
     sm_describe_endpoint = (\<lambda>_. Inr (py ''InService'')),
     sagemaker_Session = (\<lambda>_. Inr ()),
     sagemaker_get_execution_role = (\<lambda>_. Inr (Arn mock_role)),
     sagemaker_Predictor = (\<lambda>_. Inr mock_predictor) \<rparr>"

definition no_such_entity :: exn where
  "no_such_entity = Exn NoSuchEntityException
     (client_error_str (py ''NoSuchEntity'') (py ''GetRole'') []
        (py ''The role with name SageMakerTravelAssistantRole cannot be found.''))"

definition access_denied :: exn where
  "access_denied = Exn ClientError
     (client_error_str (py ''AccessDenied'') (py ''CreateRole'') []
        (py ''User is not authorized to perform: iam:CreateRole''))"

text \<open>An account without the role, and one that in addition may not create roles.\<close>

definition fresh_account :: provider where
  "fresh_account = mock_provider \<lparr> iam_get_role := (\<lambda>_. Inl no_such_entity) \<rparr>"

definition locked_account :: provider where
  "locked_account = fresh_account \<lparr> iam_create_role := (\<lambda>_. Inl access_denied) \<rparr>"


definition unknown_endpoint :: provider where
  "unknown_endpoint = mock_provider \<lparr>
     sm_describe_endpoint := (\<lambda>_. Inl (endpoint_missing_error (py ''DescribeEndpoint'') []
        (py ''Could not find endpoint demo-ep.''))),
     sm_delete_endpoint := (\<lambda>_. Inl (endpoint_missing_error (py ''DeleteEndpoint'') []
        (py ''Could not find endpoint demo-ep.''))) \<rparr>"


text \<open>A service that refuses to delete endpoint configurations.\<close>

definition config_locked :: provider where
  "config_locked = mock_provider \<lparr> sm_delete_endpoint_config := (\<lambda>_. Inl access_denied) \<rparr>"

text \<open>A machine outside the hosting environment: no execution role can be derived.\<close>

definition outside_sagemaker :: provider where
  "outside_sagemaker = mock_provider \<lparr> sagemaker_get_execution_role :=
     (\<lambda>_. Inl (Exn OtherException (py ''The current AWS identity is not a role''))) \<rparr>"

text \<open>A service that throttles the describe call.\<close>

definition throttled_service :: provider where
  "throttled_service = mock_provider \<lparr> sm_describe_endpoint :=
     (\<lambda>_. Inl (Exn ClientError (client_error_str (py ''ThrottlingException'')
        (py ''DescribeEndpoint'') [] (py ''Rate exceeded'')))) \<rparr>"








section \<open>Rules for statements\<close>

lemmas stmt_defs = ret_def raise_def bnd_def seq_def try_except_def print_def sleep_def call_def
  except_Exception_def except_bare_def

subsection \<open>What a statement emits\<close>

lemma emits_new_events: "emits P m \<Longrightarrow> list_all P (new_events t (m t))"
  by (auto simp: emits_def new_events_def dest!: spec [of _ t])

lemma emits_ret: "emits P (ret x)"
  by (simp add: emits_def ret_def)

lemma emits_raise: "emits P (raise e)"
  by (simp add: emits_def raise_def)

lemma emits_print: "P (Print line) \<Longrightarrow> emits P (print line)"
  by (simp add: emits_def print_def)

lemma emits_sleep: "P (TimeSleep n) \<Longrightarrow> emits P (sleep n)"
  by (simp add: emits_def sleep_def)

lemma emits_call: "P ev \<Longrightarrow> emits P (call ev answer)"
  by (simp add: emits_def call_def)

lemma emits_bnd:
  assumes "emits P m" and "\<And>x. emits P (f x)"
  shows "emits P (bnd m f)"
  unfolding emits_def
proof
  fix t
  from assms(1) obtain evs where m: "snd (m t) = t @ evs" "list_all P evs"
    by (auto simp: emits_def)
  show "\<exists>evs. snd (bnd m f t) = t @ evs \<and> list_all P evs"
  proof (cases "fst (m t)")
    case (Inl e)
    with m show ?thesis
      by (cases "m t") (auto simp: bnd_def)
  next
    case (Inr x)
    from assms(2) [of x] have "\<exists>evs'. snd (f x (t @ evs)) = (t @ evs) @ evs' \<and> list_all P evs'"
      unfolding emits_def by blast
    then obtain evs' where "snd (f x (t @ evs)) = t @ evs @ evs'" "list_all P evs'"
      by auto
    with m Inr show ?thesis
      by (cases "m t") (auto simp: bnd_def)
  qed
qed

lemma emits_seq: "emits P m \<Longrightarrow> emits P n \<Longrightarrow> emits P (seq m n)"
  by (simp add: seq_def emits_bnd)

lemma emits_try_except:
  assumes "emits P m" and "\<And>e. emits P (h e)"
  shows "emits P (try_except m c h)"
  unfolding emits_def
proof
  fix t
  from assms(1) obtain evs where m: "snd (m t) = t @ evs" "list_all P evs"
    by (auto simp: emits_def)
  show "\<exists>evs. snd (try_except m c h t) = t @ evs \<and> list_all P evs"
  proof (cases "fst (m t)")
    case (Inr x)
    with m show ?thesis
      by (cases "m t") (auto simp: try_except_def)
  next
    case (Inl e)
    from assms(2) [of e] have "\<exists>evs'. snd (h e (t @ evs)) = (t @ evs) @ evs' \<and> list_all P evs'"
      unfolding emits_def by blast
    then obtain evs' where "snd (h e (t @ evs)) = t @ evs @ evs'" "list_all P evs'"
      by auto
    with m Inl show ?thesis
      by (cases "m t") (auto simp: try_except_def)
  qed
qed

lemma emits_block: "(\<And>m. m \<in> set ms \<Longrightarrow> emits P m) \<Longrightarrow> emits P (block ms)"
  by (induction ms) (auto intro: emits_ret emits_seq)

lemma emits_case_option:
  "emits P a \<Longrightarrow> (\<And>y. emits P (f y)) \<Longrightarrow> emits P (case x of None \<Rightarrow> a | Some y \<Rightarrow> f y)"
  by (cases x) auto

lemma emits_if: "emits P a \<Longrightarrow> emits P b \<Longrightarrow> emits P (if c then a else b)"
  by simp

lemmas emits_intros = emits_ret emits_raise emits_bnd emits_seq emits_try_except
  emits_case_option emits_if emits_print emits_sleep emits_call

lemma emits_get_execution_role: "(\<And>ev. \<not> is_deploy ev \<Longrightarrow> P ev) \<Longrightarrow> emits P (get_execution_role p)"
  unfolding get_execution_role_def block.simps
  by (intro emits_intros) simp_all

lemma emits_print_endpoint: "(\<And>ev. \<not> is_deploy ev \<Longrightarrow> P ev) \<Longrightarrow> emits P (print_endpoint e)"
  unfolding print_endpoint_def block.simps
  by (intro emits_intros) simp_all

lemma emits_list_endpoints: "(\<And>ev. \<not> is_deploy ev \<Longrightarrow> P ev) \<Longrightarrow> emits P (list_endpoints p)"
  unfolding list_endpoints_def block.simps
  by (intro emits_intros emits_block) (auto intro: emits_print_endpoint)

lemma emits_delete_endpoint: "(\<And>ev. \<not> is_deploy ev \<Longrightarrow> P ev) \<Longrightarrow> emits P (delete_endpoint p n)"
  unfolding delete_endpoint_def block.simps
  by (intro emits_intros) simp_all

lemma emits_deploy_serverless:
  assumes "\<And>ev. \<not> is_deploy ev \<Longrightarrow> P ev"
    and "\<And>m. P (ModelDeploy m (serverless_hosting n))"
  shows "emits P (deploy_serverless p n)"
  unfolding deploy_serverless_def block.simps
  by (intro emits_intros emits_get_execution_role) (simp_all add: assms)

lemma emits_deploy_model:
  assumes "\<And>ev. \<not> is_deploy ev \<Longrightarrow> P ev"
    and "\<And>m. P (ModelDeploy m (instance_hosting it n))"
  shows "emits P (deploy_model p it n)"
  unfolding deploy_model_def block.simps
  by (intro emits_intros emits_get_execution_role) (simp_all add: assms)

lemma hosting_ok_other: "\<not> is_deploy ev \<Longrightarrow> hosting_ok args ev"
  by (cases ev) (simp_all add: hosting_ok_def)

subsection \<open>Which failures a statement reports\<close>

































lemma returns_ret: "returns (ret x)"
  by (simp add: returns_def ret_def)

lemma returns_print: "returns (print line)"
  by (simp add: returns_def print_def)

lemma returns_sleep: "returns (sleep n)"
  by (simp add: returns_def sleep_def)

lemma returns_bnd:
  assumes "returns m" and "\<And>x. returns (f x)"
  shows "returns (bnd m f)"
  unfolding returns_def
proof
  fix t
  from assms(1) obtain x where "fst (m t) = Inr x"
    unfolding returns_def by blast
  then have "bnd m f t = f x (snd (m t))"
    by (cases "m t") (simp add: bnd_def)
  with assms(2) [of x] show "\<exists>y. fst (bnd m f t) = Inr y"
    unfolding returns_def by simp
qed

lemma returns_seq: "returns m \<Longrightarrow> returns n \<Longrightarrow> returns (seq m n)"
  by (simp add: seq_def returns_bnd)

lemma returns_block: "(\<And>m. m \<in> set ms \<Longrightarrow> returns m) \<Longrightarrow> returns (block ms)"
  by (induction ms) (auto intro: returns_ret returns_seq)

lemma returns_try_all:
  assumes "\<And>e. c e" and "\<And>e. returns (h e)"
  shows "returns (try_except m c h)"
  unfolding returns_def
proof
  fix t
  show "\<exists>x. fst (try_except m c h t) = Inr x"
  proof (cases "fst (m t)")
    case (Inr x)
    then show ?thesis by (cases "m t") (simp add: try_except_def)
  next
    case (Inl e)
    then have "try_except m c h t = h e (snd (m t))"
      using assms(1) by (cases "m t") (simp add: try_except_def)
    with assms(2) [of e] show ?thesis unfolding returns_def by simp
  qed
qed

lemma returns_try_Exception: "(\<And>e. returns (h e)) \<Longrightarrow> returns (try_except m except_Exception h)"
  by (rule returns_try_all) (simp_all add: except_Exception_def)

lemma returns_try_bare: "(\<And>e. returns (h e)) \<Longrightarrow> returns (try_except m except_bare h)"
  by (rule returns_try_all) (simp_all add: except_bare_def)

lemma returns_case_option:
  "returns a \<Longrightarrow> (\<And>y. returns (f y)) \<Longrightarrow> returns (case x of None \<Rightarrow> a | Some y \<Rightarrow> f y)"
  by (cases x) auto

lemma returns_if: "returns a \<Longrightarrow> returns b \<Longrightarrow> returns (if c then a else b)"
  by simp

lemmas returns_intros = returns_ret returns_print returns_sleep returns_bnd returns_seq
  returns_try_Exception returns_try_bare returns_case_option returns_if

lemma returns_unit: "returns m \<Longrightarrow> fst (m t) = Inr ()"
  unfolding returns_def by (metis old.unit.exhaust)




lemma returns_delete_endpoint: "returns (delete_endpoint p n)"
  unfolding delete_endpoint_def by (intro returns_intros)

section \<open>The role resolver\<close>

text \<open>
  C6: when the role lookup succeeds, \<open>get_execution_role\<close> returns the Arn of the role
  found, and all it does is create the client, look the role up and print one line:
  no create-role call and no attach-policy call is issued.
\<close>

theorem role_reused:
  assumes "boto3_client p (t @ [Boto3Client (py ''iam'')]) = Inr ()"
    and "iam_get_role p (t @ [Boto3Client (py ''iam''), IamGetRole role_name]) = Inr r"
  shows "get_execution_role p t =
    (Inr (Arn r), t @ [Boto3Client (py ''iam''), IamGetRole role_name,
       Print ([0x2713] @ py '' Using existing role: '' @ Arn r)])
    \<and> filter is_create_role (new_events t (get_execution_role p t)) = []
    \<and> filter is_attach_role_policy (new_events t (get_execution_role p t)) = []"
  using assms by (simp add: get_execution_role_def stmt_defs new_events_def)

theorem role_reused_witness:
  "get_execution_role mock_provider [] =
     (Inr (py ''arn:aws:iam::123456789012:role/SageMakerTravelAssistantRole''),
      [Boto3Client (py ''iam''), IamGetRole role_name,
       Print ([0x2713] @ py '' Using existing role: ''
          @ py ''arn:aws:iam::123456789012:role/SageMakerTravelAssistantRole'')])"
  using role_reused [of mock_provider "[]" mock_role]
  by (simp add: mock_provider_def mock_role_def)

text \<open>
  C1, as amended: when the role lookup raises \<open>NoSuchEntityException\<close>,
  \<open>get_execution_role\<close> issues exactly one create-role call, for the role
  \<open>SageMakerTravelAssistantRole\<close> and with the trust policy whose principal is the
  service \<open>sagemaker.amazonaws.com\<close>. When that call and the attach-policy call that
  follows it succeed, the run attaches the policy
  \<open>arn:aws:iam::aws:policy/AmazonSageMakerFullAccess\<close> to that role exactly once,
  sleeps 10 seconds and returns the Arn of the role created.
\<close>

theorem role_created:
  assumes "boto3_client p (t @ [Boto3Client (py ''iam'')]) = Inr ()"
    and "iam_get_role p (t @ [Boto3Client (py ''iam''),
           IamGetRole (py ''SageMakerTravelAssistantRole'')]) = Inl e"
    and "isinstance e NoSuchEntityException"
  shows "filter is_create_role (new_events t (get_execution_role p t)) =
       [IamCreateRole (py ''SageMakerTravelAssistantRole'') trust_policy
          (py ''Execution role for Travel Assistant SageMaker endpoint'')]
    \<and> trust_principal trust_policy = Some (PStr (py ''sagemaker.amazonaws.com''))
    \<and> (\<forall>r.
         iam_create_role p (t @ [Boto3Client (py ''iam''),
            IamGetRole (py ''SageMakerTravelAssistantRole''),
            Print (py ''Creating new IAM role: SageMakerTravelAssistantRole''),
            IamCreateRole (py ''SageMakerTravelAssistantRole'') trust_policy
              (py ''Execution role for Travel Assistant SageMaker endpoint'')]) = Inr r \<and>
         iam_attach_role_policy p (t @ [Boto3Client (py ''iam''),
            IamGetRole (py ''SageMakerTravelAssistantRole''),
            Print (py ''Creating new IAM role: SageMakerTravelAssistantRole''),
            IamCreateRole (py ''SageMakerTravelAssistantRole'') trust_policy
              (py ''Execution role for Travel Assistant SageMaker endpoint''),
            IamAttachRolePolicy (py ''SageMakerTravelAssistantRole'')
              (py ''arn:aws:iam::aws:policy/AmazonSageMakerFullAccess'')]) = Inr ()
       \<longrightarrow> get_execution_role p t =
          (Inr (Arn r),
           t @ [Boto3Client (py ''iam''),
            IamGetRole (py ''SageMakerTravelAssistantRole''),
            Print (py ''Creating new IAM role: SageMakerTravelAssistantRole''),
            IamCreateRole (py ''SageMakerTravelAssistantRole'') trust_policy
              (py ''Execution role for Travel Assistant SageMaker endpoint''),
            IamAttachRolePolicy (py ''SageMakerTravelAssistantRole'')
              (py ''arn:aws:iam::aws:policy/AmazonSageMakerFullAccess''),
            Print (py ''Waiting for role to propagate...''),
            TimeSleep 10,
            Print ([0x2713] @ py '' Created role: '' @ Arn r)])
         \<and> filter is_attach_role_policy (new_events t (get_execution_role p t)) =
            [IamAttachRolePolicy (py ''SageMakerTravelAssistantRole'')
               (py ''arn:aws:iam::aws:policy/AmazonSageMakerFullAccess'')])"
proof (intro conjI allI impI)
  show "filter is_create_role (new_events t (get_execution_role p t)) =
       [IamCreateRole (py ''SageMakerTravelAssistantRole'') trust_policy
          (py ''Execution role for Travel Assistant SageMaker endpoint'')]"
    using assms
    by (simp add: get_execution_role_def stmt_defs new_events_def role_name_def
        split: sum.splits)
next
  show "trust_principal trust_policy = Some (PStr (py ''sagemaker.amazonaws.com''))"
    by (simp add: trust_principal_def trust_policy_def py_def)
next
  fix r
  assume created: "iam_create_role p (t @ [Boto3Client (py ''iam''),
            IamGetRole (py ''SageMakerTravelAssistantRole''),
            Print (py ''Creating new IAM role: SageMakerTravelAssistantRole''),
            IamCreateRole (py ''SageMakerTravelAssistantRole'') trust_policy
              (py ''Execution role for Travel Assistant SageMaker endpoint'')]) = Inr r \<and>
         iam_attach_role_policy p (t @ [Boto3Client (py ''iam''),
            IamGetRole (py ''SageMakerTravelAssistantRole''),
            Print (py ''Creating new IAM role: SageMakerTravelAssistantRole''),
            IamCreateRole (py ''SageMakerTravelAssistantRole'') trust_policy
              (py ''Execution role for Travel Assistant SageMaker endpoint''),
            IamAttachRolePolicy (py ''SageMakerTravelAssistantRole'')
              (py ''arn:aws:iam::aws:policy/AmazonSageMakerFullAccess'')]) = Inr ()"
  have line: "py ''Creating new IAM role: '' @ py ''SageMakerTravelAssistantRole''
      = py ''Creating new IAM role: SageMakerTravelAssistantRole''"
    by (simp add: py_def)
  from assms created line show run: "get_execution_role p t =
          (Inr (Arn r),
           t @ [Boto3Client (py ''iam''),
            IamGetRole (py ''SageMakerTravelAssistantRole''),
            Print (py ''Creating new IAM role: SageMakerTravelAssistantRole''),
            IamCreateRole (py ''SageMakerTravelAssistantRole'') trust_policy
              (py ''Execution role for Travel Assistant SageMaker endpoint''),
            IamAttachRolePolicy (py ''SageMakerTravelAssistantRole'')
              (py ''arn:aws:iam::aws:policy/AmazonSageMakerFullAccess''),
            Print (py ''Waiting for role to propagate...''),
            TimeSleep 10,
            Print ([0x2713] @ py '' Created role: '' @ Arn r)])"
    by (simp add: get_execution_role_def stmt_defs role_name_def sagemaker_full_access_def)
  then show "filter is_attach_role_policy (new_events t (get_execution_role p t)) =
            [IamAttachRolePolicy (py ''SageMakerTravelAssistantRole'')
               (py ''arn:aws:iam::aws:policy/AmazonSageMakerFullAccess'')]"
    by (simp add: new_events_def)
qed

theorem role_created_witness:
  "get_execution_role fresh_account [] =
     (Inr (py ''arn:aws:iam::123456789012:role/SageMakerTravelAssistantRole''),
      [Boto3Client (py ''iam''),
       IamGetRole (py ''SageMakerTravelAssistantRole''),
       Print (py ''Creating new IAM role: SageMakerTravelAssistantRole''),
       IamCreateRole (py ''SageMakerTravelAssistantRole'') trust_policy
         (py ''Execution role for Travel Assistant SageMaker endpoint''),
       IamAttachRolePolicy (py ''SageMakerTravelAssistantRole'')
         (py ''arn:aws:iam::aws:policy/AmazonSageMakerFullAccess''),
       Print (py ''Waiting for role to propagate...''),
       TimeSleep 10,
       Print ([0x2713] @ py '' Created role: ''
          @ py ''arn:aws:iam::123456789012:role/SageMakerTravelAssistantRole'')])
   \<and> filter is_attach_role_policy (new_events [] (get_execution_role fresh_account [])) =
       [IamAttachRolePolicy (py ''SageMakerTravelAssistantRole'')
          (py ''arn:aws:iam::aws:policy/AmazonSageMakerFullAccess'')]"
  using role_created [of fresh_account "[]" no_such_entity]
  by (simp add: fresh_account_def mock_provider_def mock_role_def no_such_entity_def
      new_events_def)

text \<open>
  The claim C1 as stated fails where the account may not create roles: the lookup signals
  that the role does not exist, the create-role call is refused, and the run ends with
  that error, having attached no policy.
\<close>

theorem role_creation_denied_counterexample:
  "iam_get_role locked_account [Boto3Client (py ''iam''),
      IamGetRole (py ''SageMakerTravelAssistantRole'')] = Inl no_such_entity
   \<and> isinstance no_such_entity NoSuchEntityException
   \<and> fst (get_execution_role locked_account []) = Inl access_denied
   \<and> filter is_attach_role_policy (snd (get_execution_role locked_account [])) = []"
  by (simp add: locked_account_def fresh_account_def mock_provider_def no_such_entity_def
      get_execution_role_def stmt_defs)

lemmas run_defs = get_execution_role_def deploy_model_def deploy_serverless_def
  list_endpoints_def delete_endpoint_def model_main_def stmt_defs new_events_def

section \<open>Hosting variant\<close>

lemma no_deploy_run:
  assumes "emits (\<lambda>ev. \<not> is_deploy ev) m"
  shows "\<exists>evs. snd (m t) = t @ evs \<and> filter is_deploy evs = []"
proof -
  from assms obtain evs where "snd (m t) = t @ evs" "list_all (\<lambda>ev. \<not> is_deploy ev) evs"
    unfolding emits_def by blast
  then show ?thesis by (auto simp: list_all_iff filter_empty_conv)
qed

lemma deploys_once_run:
  "deploys_once d m \<Longrightarrow> filter is_deploy (new_events t (m t)) = [d]"
  by (auto simp: deploys_once_def new_events_def dest!: spec [of _ t])

lemma once_call: "is_deploy d \<Longrightarrow> deploys_once d (call d answer)"
  by (simp add: deploys_once_def call_def)

lemma once_bnd_before:
  assumes m: "deploys_once d m" and f: "\<And>x. emits (\<lambda>ev. \<not> is_deploy ev) (f x)"
  shows "deploys_once d (bnd m f)"
  unfolding deploys_once_def
proof
  fix t
  from m obtain evs where e: "snd (m t) = t @ evs" "filter is_deploy evs = [d]"
    unfolding deploys_once_def by blast
  show "\<exists>evs. snd (bnd m f t) = t @ evs \<and> filter is_deploy evs = [d]"
  proof (cases "fst (m t)")
    case (Inl x)
    with e show ?thesis by (cases "m t") (auto simp: bnd_def)
  next
    case (Inr x)
    from no_deploy_run [OF f [of x], of "t @ evs"]
    obtain evs' where "snd (f x (t @ evs)) = t @ evs @ evs'" "filter is_deploy evs' = []"
      by auto
    with e Inr show ?thesis by (cases "m t") (auto simp: bnd_def)
  qed
qed

lemma once_bnd_after:
  assumes m: "emits (\<lambda>ev. \<not> is_deploy ev) m" and y: "yields x m" and f: "deploys_once d (f x)"
  shows "deploys_once d (bnd m f)"
  unfolding deploys_once_def
proof
  fix t
  from no_deploy_run [OF m, of t]
  obtain evs where e: "snd (m t) = t @ evs" "filter is_deploy evs = []" by blast
  from y have r: "fst (m t) = Inr x" by (simp add: yields_def)
  from f obtain evs' where "snd (f x (t @ evs)) = (t @ evs) @ evs'" "filter is_deploy evs' = [d]"
    unfolding deploys_once_def by blast
  with e r show "\<exists>evs. snd (bnd m f t) = t @ evs \<and> filter is_deploy evs = [d]"
    by (cases "m t") (auto simp: bnd_def)
qed

lemma once_seq_after:
  assumes "emits (\<lambda>ev. \<not> is_deploy ev) m" and "returns m" and "deploys_once d n"
  shows "deploys_once d (seq m n)"
proof -
  from assms(2) have "yields () m"
    by (simp add: yields_def returns_unit)
  from once_bnd_after [where f = "\<lambda>_. n" and x = "()", OF assms(1) this] assms(3)
  show ?thesis by (simp add: seq_def)
qed

lemma once_try_except:
  assumes m: "deploys_once d m" and h: "\<And>e. emits (\<lambda>ev. \<not> is_deploy ev) (h e)"
  shows "deploys_once d (try_except m c h)"
  unfolding deploys_once_def
proof
  fix t
  from m obtain evs where e: "snd (m t) = t @ evs" "filter is_deploy evs = [d]"
    unfolding deploys_once_def by blast
  show "\<exists>evs. snd (try_except m c h t) = t @ evs \<and> filter is_deploy evs = [d]"
  proof (cases "fst (m t)")
    case (Inr x)
    with e show ?thesis by (cases "m t") (auto simp: try_except_def)
  next
    case (Inl x)
    from no_deploy_run [OF h [of x], of "t @ evs"]
    obtain evs' where "snd (h x (t @ evs)) = t @ evs @ evs'" "filter is_deploy evs' = []"
      by auto
    with e Inl show ?thesis by (cases "m t") (auto simp: try_except_def)
  qed
qed

lemma yields_try_except: "yields x m \<Longrightarrow> yields x (try_except m c h)"
  unfolding yields_def
proof
  fix t
  assume "\<forall>t. fst (m t) = Inr x"
  then have "fst (m t) = Inr x" by simp
  then show "fst (try_except m c h t) = Inr x"
    by (cases "m t") (simp add: try_except_def)
qed

lemma yields_bnd_ret: "yields x m \<Longrightarrow> yields (g x) (bnd m (\<lambda>v. ret (g v)))"
  unfolding yields_def
proof
  fix t
  assume "\<forall>t. fst (m t) = Inr x"
  then have "fst (m t) = Inr x" by simp
  then show "fst (bnd m (\<lambda>v. ret (g v)) t) = Inr (g x)"
    by (cases "m t") (simp add: bnd_def ret_def)
qed

lemma yields_get_execution_role:
  assumes "\<forall>h. boto3_client p h = Inr ()" and "\<forall>h. iam_get_role p h = Inr r"
  shows "yields (Arn r) (get_execution_role p)"
  using assms by (simp add: yields_def get_execution_role_def stmt_defs)

lemma yields_descriptor:
  assumes "\<forall>h. hf_HuggingFaceModel p h = Inr ()"
  shows "yields (Some d)
     (try_except
        (bnd (call (NewHuggingFaceModel d) (hf_HuggingFaceModel p)) (\<lambda>_.
           seq (print line) (ret (Some d))))
        c h)"
  using assms by (simp add: yields_def stmt_defs)

lemma emits_no_deploy_get_execution_role:
  "emits (\<lambda>ev. \<not> is_deploy ev) (get_execution_role p)"
  by (rule emits_get_execution_role)

lemma deploy_model_deploys_once:
  assumes "\<forall>h. boto3_client p h = Inr ()" and "\<forall>h. iam_get_role p h = Inr r"
    and "\<forall>h. hf_HuggingFaceModel p h = Inr ()"
  shows "deploys_once (ModelDeploy (deploy_model_descriptor (Arn r)) (instance_hosting it n))
           (deploy_model p it n)"
  unfolding deploy_model_def block.simps
  apply (rule once_seq_after)
    apply (intro emits_intros; simp)
   apply (intro returns_intros)
  apply (rule once_bnd_after [where x = "Some (Arn r)"])
    apply (intro emits_intros emits_no_deploy_get_execution_role; simp)
   apply (rule yields_try_except)
   apply (rule yields_bnd_ret [OF yields_get_execution_role [OF assms(1,2)]])
  apply simp
  apply (rule once_seq_after)
    apply (intro emits_intros; simp)
   apply (intro returns_intros)
  apply (rule once_bnd_after [where x = "Some (deploy_model_descriptor (Arn r))"])
    apply (intro emits_intros; simp)
   apply (rule yields_descriptor [OF assms(3)])
  apply simp
  apply (rule once_seq_after)
    apply (intro emits_intros; simp)
   apply (intro returns_intros)
  apply (rule once_try_except)
   apply (rule once_bnd_before)
    apply (rule once_call)
    apply simp
   apply (intro emits_intros; simp)
  apply (intro emits_intros; simp)
  done

lemma deploy_serverless_deploys_once:
  assumes "\<forall>h. boto3_client p h = Inr ()" and "\<forall>h. iam_get_role p h = Inr r"
    and "\<forall>h. hf_HuggingFaceModel p h = Inr ()"
    and "\<forall>h. sl_ServerlessInferenceConfig p h = Inr ()"
  shows "filter is_deploy (new_events t (deploy_serverless p n t)) =
     [ModelDeploy (serverless_descriptor (Arn r)) (serverless_hosting n)]"
  using assms
  by (simp add: deploy_serverless_def get_execution_role_def stmt_defs
          new_events_def split: sum.splits)

text \<open>
  C2: every deploy call of a run of the first script carries the hosting variant its
  command line selects: with \<open>--serverless\<close> the serverless configuration (4096 MB,
  concurrency 10) and no instance type or count; without it the instance type of the
  command line, the count 1 and no serverless configuration. And the call is made: when
  neither \<open>--list\<close> nor \<open>--delete\<close> is given and the role and the descriptor (and,
  with \<open>--serverless\<close>, the serverless configuration) are obtained, the run issues
  exactly one deploy call, with the endpoint name of the command line and that variant.
\<close>

theorem hosting_variant_by_flag:
  "list_all (hosting_ok args) (new_events t (model_main p args t))
   \<and> ((\<forall>h. boto3_client p h = Inr ()) \<and> (\<forall>h. iam_get_role p h = Inr r)
        \<and> (\<forall>h. hf_HuggingFaceModel p h = Inr ())
        \<and> (\<forall>h. sl_ServerlessInferenceConfig p h = Inr ())
        \<and> \<not> arg_list args \<and> \<not> truthy (arg_delete args)
      \<longrightarrow> filter is_deploy (new_events t (model_main p args t)) =
           [if arg_serverless args
            then ModelDeploy (serverless_descriptor (Arn r))
                   \<lparr> kw_initial_instance_count = None,
                     kw_instance_type = None,
                     kw_serverless_inference_config =
                       Some \<lparr> memory_size_in_mb = 4096, max_concurrency = 10 \<rparr>,
                     kw_endpoint_name = Some (arg_endpoint_name args),
                     kw_wait = None,
                     kw_tags = None \<rparr>
            else ModelDeploy (deploy_model_descriptor (Arn r))
                   \<lparr> kw_initial_instance_count = Some 1,
                     kw_instance_type = Some (arg_instance_type args),
                     kw_serverless_inference_config = None,
                     kw_endpoint_name = Some (arg_endpoint_name args),
                     kw_wait = None,
                     kw_tags = None \<rparr>])"
proof (intro conjI impI)
  have other: "\<And>ev. \<not> is_deploy ev \<Longrightarrow> hosting_ok args ev"
    by (rule hosting_ok_other)
  have "emits (hosting_ok args) (model_main p args)"
  proof (cases "arg_list args \<or> truthy (arg_delete args)")
    case True
    then show ?thesis
      unfolding model_main_def
      by (auto intro!: emits_list_endpoints [OF other] emits_delete_endpoint [OF other] emits_ret
          split: option.splits)
  next
    case False
    show ?thesis
    proof (cases "arg_serverless args")
      case True
      with False show ?thesis
        unfolding model_main_def
        by (auto intro!: emits_deploy_serverless [OF other]
            simp: hosting_ok_def serverless_hosting_def serverless_4096_10_def)
    next
      case no: False
      with False show ?thesis
        unfolding model_main_def
        by (auto intro!: emits_deploy_model [OF other]
            simp: hosting_ok_def instance_hosting_def)
    qed
  qed
  then show "list_all (hosting_ok args) (new_events t (model_main p args t))"
    by (rule emits_new_events)
next
  assume coop: "(\<forall>h. boto3_client p h = Inr ()) \<and> (\<forall>h. iam_get_role p h = Inr r)
        \<and> (\<forall>h. hf_HuggingFaceModel p h = Inr ())
        \<and> (\<forall>h. sl_ServerlessInferenceConfig p h = Inr ())
        \<and> \<not> arg_list args \<and> \<not> truthy (arg_delete args)"
  show "filter is_deploy (new_events t (model_main p args t)) =
           [if arg_serverless args
            then ModelDeploy (serverless_descriptor (Arn r))
                   \<lparr> kw_initial_instance_count = None,
                     kw_instance_type = None,
                     kw_serverless_inference_config =
                       Some \<lparr> memory_size_in_mb = 4096, max_concurrency = 10 \<rparr>,
                     kw_endpoint_name = Some (arg_endpoint_name args),
                     kw_wait = None,
                     kw_tags = None \<rparr>
            else ModelDeploy (deploy_model_descriptor (Arn r))
                   \<lparr> kw_initial_instance_count = Some 1,
                     kw_instance_type = Some (arg_instance_type args),
                     kw_serverless_inference_config = None,
                     kw_endpoint_name = Some (arg_endpoint_name args),
                     kw_wait = None,
                     kw_tags = None \<rparr>]"
  proof (cases "arg_serverless args")
    case True
    from coop have "filter is_deploy (new_events t (deploy_serverless p (arg_endpoint_name args) t))
        = [ModelDeploy (serverless_descriptor (Arn r)) (serverless_hosting (arg_endpoint_name args))]"
      by (intro deploy_serverless_deploys_once) simp_all
    with coop True show ?thesis
      by (simp add: model_main_def serverless_hosting_def serverless_4096_10_def)
  next
    case False
    from coop have "deploys_once
        (ModelDeploy (deploy_model_descriptor (Arn r))
           (instance_hosting (arg_instance_type args) (arg_endpoint_name args)))
        (deploy_model p (arg_instance_type args) (arg_endpoint_name args))"
      by (intro deploy_model_deploys_once) simp_all
    from deploys_once_run [OF this, of t] coop False show ?thesis
      by (simp add: model_main_def instance_hosting_def)
  qed
qed

theorem hosting_variant_by_flag_witness:
  "filter is_deploy (new_events []
      (model_main mock_provider (default_args \<lparr> arg_serverless := True \<rparr>) []))
     = [ModelDeploy (serverless_descriptor (Arn mock_role))
          \<lparr> kw_initial_instance_count = None,
            kw_instance_type = None,
            kw_serverless_inference_config =
              Some \<lparr> memory_size_in_mb = 4096, max_concurrency = 10 \<rparr>,
            kw_endpoint_name = Some (py ''travel-assistant-endpoint''),
            kw_wait = None,
            kw_tags = None \<rparr>]
   \<and> filter is_deploy (new_events [] (model_main mock_provider default_args []))
     = [ModelDeploy (deploy_model_descriptor (Arn mock_role))
          \<lparr> kw_initial_instance_count = Some 1,
            kw_instance_type = Some (py ''ml.t2.medium''),
            kw_serverless_inference_config = None,
            kw_endpoint_name = Some (py ''travel-assistant-endpoint''),
            kw_wait = None,
            kw_tags = None \<rparr>]
   \<and> list_all (hosting_ok (default_args \<lparr> arg_serverless := True \<rparr>))
        (new_events [] (model_main mock_provider (default_args \<lparr> arg_serverless := True \<rparr>) []))
   \<and> list_all (hosting_ok default_args) (new_events [] (model_main mock_provider default_args []))"
  using hosting_variant_by_flag
      [of "default_args \<lparr> arg_serverless := True \<rparr>" "[]" mock_provider mock_role]
    hosting_variant_by_flag [of default_args "[]" mock_provider mock_role]
  by (simp add: mock_provider_def default_args_def truthy_def)

section \<open>The example scenario\<close>

text \<open>
  C4: deploy with \<open>--endpoint-name demo-ep\<close> and the other arguments at their defaults,
  on a provider where the role exists and the client, the descriptor, the deploy call and
  the region lookups succeed. The calls of the run are then, in order: the role lookup,
  the construction of the descriptor (whose model id is
  \<open>facebook/blenderbot-400M-distill\<close>), one deploy call with endpoint name
  \<open>demo-ep\<close>, instance type \<open>ml.t2.medium\<close> and instance count 1, and, after
  it has returned, exactly one \<open>predict\<close> call, with the payload
  \<open>{"inputs": "Hello! I want to plan a trip to Japan."}\<close>.
\<close>

theorem demo_scenario:
  assumes "\<forall>h. boto3_client p h = Inr ()"
    and "\<forall>h. iam_get_role p h = Inr r"
    and "\<forall>h. hf_HuggingFaceModel p h = Inr ()"
    and "\<forall>h. hf_deploy p h = Inr pr"
    and "\<forall>h. boto3_Session_region_name p h = Inr region"
  shows "calls (new_events t (model_main p (default_args \<lparr> arg_endpoint_name := py ''demo-ep'' \<rparr>) t)) =
     [Boto3Client (py ''iam''),
      IamGetRole role_name,
      NewHuggingFaceModel (deploy_model_descriptor (Arn r)),
      ModelDeploy (deploy_model_descriptor (Arn r))
        \<lparr> kw_initial_instance_count = Some 1,
          kw_instance_type = Some (py ''ml.t2.medium''),
          kw_serverless_inference_config = None,
          kw_endpoint_name = Some (py ''demo-ep''),
          kw_wait = None,
          kw_tags = None \<rparr>,
      Boto3SessionRegionName,
      Boto3SessionRegionName,
      PredictorPredict pr
        (PDict [(py ''inputs'', PStr (py ''Hello! I want to plan a trip to Japan.''))])]
   \<and> map_option (\<lambda>d. dict_get d (py ''HF_MODEL_ID'') [])
        (hf_model_data (deploy_model_descriptor (Arn r)))
       = Some (py ''facebook/blenderbot-400M-distill'')"
proof
  show "calls (new_events t (model_main p (default_args \<lparr> arg_endpoint_name := py ''demo-ep'' \<rparr>) t)) =
     [Boto3Client (py ''iam''),
      IamGetRole role_name,
      NewHuggingFaceModel (deploy_model_descriptor (Arn r)),
      ModelDeploy (deploy_model_descriptor (Arn r))
        \<lparr> kw_initial_instance_count = Some 1,
          kw_instance_type = Some (py ''ml.t2.medium''),
          kw_serverless_inference_config = None,
          kw_endpoint_name = Some (py ''demo-ep''),
          kw_wait = None,
          kw_tags = None \<rparr>,
      Boto3SessionRegionName,
      Boto3SessionRegionName,
      PredictorPredict pr
        (PDict [(py ''inputs'', PStr (py ''Hello! I want to plan a trip to Japan.''))])]"
    using assms
    by (simp add: run_defs calls_def default_args_def truthy_def instance_hosting_def
        test_payload_def split: sum.splits)
next
  show "map_option (\<lambda>d. dict_get d (py ''HF_MODEL_ID'') [])
        (hf_model_data (deploy_model_descriptor (Arn r)))
       = Some (py ''facebook/blenderbot-400M-distill'')"
    by (simp add: deploy_model_descriptor_def model_data_def dict_get_def)
qed

theorem demo_scenario_witness:
  "calls (new_events [] (model_main mock_provider (default_args \<lparr> arg_endpoint_name := py ''demo-ep'' \<rparr>) [])) =
     [Boto3Client (py ''iam''),
      IamGetRole role_name,
      NewHuggingFaceModel (deploy_model_descriptor (Arn mock_role)),
      ModelDeploy (deploy_model_descriptor (Arn mock_role))
        \<lparr> kw_initial_instance_count = Some 1,
          kw_instance_type = Some (py ''ml.t2.medium''),
          kw_serverless_inference_config = None,
          kw_endpoint_name = Some (py ''demo-ep''),
          kw_wait = None,
          kw_tags = None \<rparr>,
      Boto3SessionRegionName,
      Boto3SessionRegionName,
      PredictorPredict mock_predictor
        (PDict [(py ''inputs'', PStr (py ''Hello! I want to plan a trip to Japan.''))])]"
  using demo_scenario [of mock_provider mock_role mock_predictor "Some (py ''us-east-1'')" "[]"]
  by (simp add: mock_provider_def)

section \<open>Endpoint status\<close>

lemma startswith_append: "startswith (needle @ rest) needle"
  by (induction needle) auto

lemma startswith_iff: "startswith hay needle \<longleftrightarrow> (\<exists>rest. hay = needle @ rest)"
  by (induction hay needle rule: startswith.induct) auto

lemma str_in_here: "str_in needle (needle @ rest)"
  by (cases "needle @ rest") (use startswith_append [of needle rest] in auto)

lemma str_in_append: "str_in needle (before @ needle @ rest)"
proof (induction before)
  case Nil
  show ?case by (simp add: str_in_here)
next
  case (Cons c before)
  then show ?case by simp
qed

lemma str_in_iff: "str_in needle hay \<longleftrightarrow> (\<exists>before rest. hay = before @ needle @ rest)"
proof
  assume "str_in needle hay"
  then show "\<exists>before rest. hay = before @ needle @ rest"
  proof (induction hay)
    case Nil
    then show ?case by simp
  next
    case (Cons h hs)
    then consider "startswith (h # hs) needle" | "str_in needle hs" by auto
    then show ?case
    proof cases
      case 1
      then obtain rest where "h # hs = needle @ rest" by (auto simp: startswith_iff)
      then have "h # hs = [] @ needle @ rest" by simp
      then show ?thesis by blast
    next
      case 2
      with Cons.IH obtain before rest where "hs = before @ needle @ rest" by blast
      then have "h # hs = (h # before) @ needle @ rest" by simp
      then show ?thesis by blast
    qed
  qed
next
  assume "\<exists>before rest. hay = before @ needle @ rest"
  then show "str_in needle hay" by (auto simp: str_in_append)
qed

lemma validation_in_client_error:
  "str_in (py ''ValidationException'')
     (client_error_str (py ''ValidationException'') operation retry_info message)"
  unfolding client_error_str_def by (rule str_in_append)

text \<open>
  C5: once its client exists, \<open>check_endpoint_status\<close> answers a describe call that
  reports the endpoint as not existing (a client error with the code
  \<open>ValidationException\<close>) by printing the line \<open>Endpoint '<name>' not found\<close>, after
  the cross mark, and nothing else. That line holds the words \<open>not found\<close> and is never
  the generic line \<open>Error checking endpoint: <text>\<close>, which is what a client error
  without \<open>ValidationException\<close> in its text gets.
\<close>

theorem missing_endpoint_not_found:
  assumes "boto3_client p (t @ [Boto3Client (py ''sagemaker'')]) = Inr ()"
  shows "(sm_describe_endpoint p (t @ [Boto3Client (py ''sagemaker''), SmDescribeEndpoint n])
             = Inl (Exn ClientError
                 (py ''An error occurred (ValidationException) when calling the '' @ operation
                    @ py '' operation'' @ retry_info @ py '': '' @ message))
           \<longrightarrow> check_endpoint_status p n t =
                 (Inr None, t @ [Boto3Client (py ''sagemaker''), SmDescribeEndpoint n,
                    Print ([0x274C] @ py '' Endpoint '' @ [39] @ n @ [39] @ py '' not found'')]))
       \<and> (sm_describe_endpoint p (t @ [Boto3Client (py ''sagemaker''), SmDescribeEndpoint n])
                 = Inl e
              \<and> isinstance e ClientError
              \<and> \<not> str_in (py ''ValidationException'') (exn_str e)
           \<longrightarrow> check_endpoint_status p n t =
                 (Inr None, t @ [Boto3Client (py ''sagemaker''), SmDescribeEndpoint n,
                    Print ([0x274C] @ py '' Error checking endpoint: '' @ exn_str e)]))
       \<and> str_in (py ''not found'')
             ([0x274C] @ py '' Endpoint '' @ [39] @ n @ [39] @ py '' not found'')
       \<and> [0x274C] @ py '' Endpoint '' @ [39] @ n @ [39] @ py '' not found''
               \<noteq> [0x274C] @ py '' Error checking endpoint: '' @ exn_str e'"
proof (intro conjI impI)
  assume missing: "sm_describe_endpoint p (t @ [Boto3Client (py ''sagemaker''), SmDescribeEndpoint n])
             = Inl (Exn ClientError
                 (py ''An error occurred (ValidationException) when calling the '' @ operation
                    @ py '' operation'' @ retry_info @ py '': '' @ message))"
  have shape: "py ''An error occurred (ValidationException) when calling the '' @ operation
                    @ py '' operation'' @ retry_info @ py '': '' @ message
      = client_error_str (py ''ValidationException'') operation retry_info message"
    by (simp add: client_error_str_def py_def)
  show "check_endpoint_status p n t =
                 (Inr None, t @ [Boto3Client (py ''sagemaker''), SmDescribeEndpoint n,
                    Print ([0x274C] @ py '' Endpoint '' @ [39] @ n @ [39] @ py '' not found'')])"
    using assms missing validation_in_client_error [of operation retry_info message]
    unfolding shape
    by (simp add: check_endpoint_status_def stmt_defs not_found_line_def apostrophe_def)
next
  assume "sm_describe_endpoint p (t @ [Boto3Client (py ''sagemaker''), SmDescribeEndpoint n])
                 = Inl e
              \<and> isinstance e ClientError
              \<and> \<not> str_in (py ''ValidationException'') (exn_str e)"
  with assms show "check_endpoint_status p n t =
                 (Inr None, t @ [Boto3Client (py ''sagemaker''), SmDescribeEndpoint n,
                    Print ([0x274C] @ py '' Error checking endpoint: '' @ exn_str e)])"
    by (simp add: check_endpoint_status_def stmt_defs generic_error_line_def)
next
  have "[0x274C] @ py '' Endpoint '' @ [39] @ n @ [39] @ py '' not found''
      = ([0x274C] @ py '' Endpoint '' @ [39] @ n @ [39] @ py '' '') @ py ''not found'' @ []"
    by (simp add: py_def)
  then show "str_in (py ''not found'')
             ([0x274C] @ py '' Endpoint '' @ [39] @ n @ [39] @ py '' not found'')"
    using str_in_append [of "py ''not found''"
        "[0x274C] @ py '' Endpoint '' @ [39] @ n @ [39] @ py '' ''" "[]"]
    by simp
next
  show "[0x274C] @ py '' Endpoint '' @ [39] @ n @ [39] @ py '' not found''
               \<noteq> [0x274C] @ py '' Error checking endpoint: '' @ exn_str e'"
    by (simp add: py_def)
qed

theorem missing_endpoint_not_found_witness:
  "check_endpoint_status unknown_endpoint (py ''demo-ep'') [] =
     (Inr None, [Boto3Client (py ''sagemaker''), SmDescribeEndpoint (py ''demo-ep''),
        Print ([0x274C] @ py '' Endpoint 'demo-ep' not found'')])
   \<and> check_endpoint_status throttled_service (py ''demo-ep'') [] =
     (Inr None, [Boto3Client (py ''sagemaker''), SmDescribeEndpoint (py ''demo-ep''),
        Print ([0x274C] @ py '' Error checking endpoint: An error occurred (ThrottlingException) when calling the DescribeEndpoint operation: Rate exceeded'')])"
  using missing_endpoint_not_found [of unknown_endpoint "[]" "py ''demo-ep''"
      "py ''DescribeEndpoint''" "[]" "py ''Could not find endpoint demo-ep.''"]
    missing_endpoint_not_found [of throttled_service "[]" "py ''demo-ep''" _ _ _
      "Exn ClientError (client_error_str (py ''ThrottlingException'') (py ''DescribeEndpoint'') []
         (py ''Rate exceeded''))"]
  by (simp add: unknown_endpoint_def throttled_service_def mock_provider_def
      endpoint_missing_error_def client_error_str_def py_def)

text \<open>
  C9: once its client exists, \<open>check_endpoint_status\<close> returns the status the describe
  call reports, and returns \<open>None\<close> when the describe call raises a client error,
  whatever that error is; it does not raise then.
\<close>

theorem status_result:
  assumes "boto3_client p (t @ [Boto3Client (py ''sagemaker'')]) = Inr ()"
  shows "(\<forall>status. sm_describe_endpoint p (t @ [Boto3Client (py ''sagemaker''), SmDescribeEndpoint n])
             = Inr status
           \<longrightarrow> fst (check_endpoint_status p n t) = Inr (Some status))
       \<and> (\<forall>e. sm_describe_endpoint p (t @ [Boto3Client (py ''sagemaker''), SmDescribeEndpoint n])
             = Inl e \<and> isinstance e ClientError
           \<longrightarrow> fst (check_endpoint_status p n t) = Inr None)"
  using assms
  by (auto simp: check_endpoint_status_def report_status_def stmt_defs)

theorem status_result_witness:
  "fst (check_endpoint_status mock_provider (py ''demo-ep'') []) = Inr (Some (py ''InService''))
   \<and> fst (check_endpoint_status unknown_endpoint (py ''demo-ep'') []) = Inr None"
  using status_result [of mock_provider "[]" "py ''demo-ep''"]
    status_result [of unknown_endpoint "[]" "py ''demo-ep''"]
  by (simp add: unknown_endpoint_def mock_provider_def endpoint_missing_error_def)

section \<open>Deleting an endpoint\<close>

text \<open>
  C3, as amended: \<open>delete_endpoint\<close> never raises, and \<open>cleanup_endpoint\<close> never
  raises once its client exists; in particular a failure of the configuration deletion
  does not leave either function. When the request to delete the endpoint succeeds, both
  go on to request the deletion of the endpoint configuration of the same name, once, and
  print a confirmation only if that request succeeds.
\<close>

theorem config_deleted_after_endpoint:
  "fst (delete_endpoint p n t) = Inr ()
   \<and> (boto3_client p (t @ [Boto3Client (py ''sagemaker'')]) = Inr ()
        \<longrightarrow> fst (cleanup_endpoint p n t) = Inr ())
   \<and> (boto3_client p (t @ [Boto3Client (py ''sagemaker'')]) = Inr ()
        \<and> sm_delete_endpoint p (t @ [Boto3Client (py ''sagemaker''),
              Print ([0x1F5D1, 0xFE0F] @ py ''  Deleting endpoint: '' @ n),
              SmDeleteEndpoint n]) = Inr ()
        \<longrightarrow> new_events t (delete_endpoint p n t) =
             [Boto3Client (py ''sagemaker''),
              Print ([0x1F5D1, 0xFE0F] @ py ''  Deleting endpoint: '' @ n),
              SmDeleteEndpoint n,
              Print ([0x2713] @ py '' Endpoint deleted successfully''),
              SmDeleteEndpointConfig n]
             @ (case sm_delete_endpoint_config p (t @ [Boto3Client (py ''sagemaker''),
                       Print ([0x1F5D1, 0xFE0F] @ py ''  Deleting endpoint: '' @ n),
                       SmDeleteEndpoint n,
                       Print ([0x2713] @ py '' Endpoint deleted successfully''),
                       SmDeleteEndpointConfig n]) of
                  Inl e \<Rightarrow> []
                | Inr _ \<Rightarrow> [Print ([0x2713] @ py '' Endpoint config deleted'')]))
   \<and> (boto3_client p (t @ [Boto3Client (py ''sagemaker'')]) = Inr ()
        \<and> sm_delete_endpoint p (t @ [Boto3Client (py ''sagemaker''),
              Print ([0x1F5D1, 0xFE0F] @ py '' Deleting endpoint: '' @ n),
              SmDeleteEndpoint n]) = Inr ()
        \<longrightarrow> new_events t (cleanup_endpoint p n t) =
             [Boto3Client (py ''sagemaker''),
              Print ([0x1F5D1, 0xFE0F] @ py '' Deleting endpoint: '' @ n),
              SmDeleteEndpoint n,
              Print ([0x2705] @ py '' Endpoint deletion initiated''),
              SmDeleteEndpointConfig n]
             @ (case sm_delete_endpoint_config p (t @ [Boto3Client (py ''sagemaker''),
                       Print ([0x1F5D1, 0xFE0F] @ py '' Deleting endpoint: '' @ n),
                       SmDeleteEndpoint n,
                       Print ([0x2705] @ py '' Endpoint deletion initiated''),
                       SmDeleteEndpointConfig n]) of
                  Inl e \<Rightarrow> []
                | Inr _ \<Rightarrow> [Print ([0x2705] @ py '' Endpoint configuration deleted'')]))"
proof (intro conjI impI)
  show "fst (delete_endpoint p n t) = Inr ()"
    by (rule returns_unit [OF returns_delete_endpoint])
next
  assume "boto3_client p (t @ [Boto3Client (py ''sagemaker'')]) = Inr ()"
  then show "fst (cleanup_endpoint p n t) = Inr ()"
    by (simp add: cleanup_endpoint_def stmt_defs split: sum.splits)
next
  assume "boto3_client p (t @ [Boto3Client (py ''sagemaker'')]) = Inr ()
        \<and> sm_delete_endpoint p (t @ [Boto3Client (py ''sagemaker''),
              Print ([0x1F5D1, 0xFE0F] @ py ''  Deleting endpoint: '' @ n),
              SmDeleteEndpoint n]) = Inr ()"
  then show "new_events t (delete_endpoint p n t) =
             [Boto3Client (py ''sagemaker''),
              Print ([0x1F5D1, 0xFE0F] @ py ''  Deleting endpoint: '' @ n),
              SmDeleteEndpoint n,
              Print ([0x2713] @ py '' Endpoint deleted successfully''),
              SmDeleteEndpointConfig n]
             @ (case sm_delete_endpoint_config p (t @ [Boto3Client (py ''sagemaker''),
                       Print ([0x1F5D1, 0xFE0F] @ py ''  Deleting endpoint: '' @ n),
                       SmDeleteEndpoint n,
                       Print ([0x2713] @ py '' Endpoint deleted successfully''),
                       SmDeleteEndpointConfig n]) of
                  Inl e \<Rightarrow> []
                | Inr _ \<Rightarrow> [Print ([0x2713] @ py '' Endpoint config deleted'')])"
    by (simp add: delete_endpoint_def stmt_defs new_events_def split: sum.splits)
next
  assume "boto3_client p (t @ [Boto3Client (py ''sagemaker'')]) = Inr ()
        \<and> sm_delete_endpoint p (t @ [Boto3Client (py ''sagemaker''),
              Print ([0x1F5D1, 0xFE0F] @ py '' Deleting endpoint: '' @ n),
              SmDeleteEndpoint n]) = Inr ()"
  then show "new_events t (cleanup_endpoint p n t) =
             [Boto3Client (py ''sagemaker''),
              Print ([0x1F5D1, 0xFE0F] @ py '' Deleting endpoint: '' @ n),
              SmDeleteEndpoint n,
              Print ([0x2705] @ py '' Endpoint deletion initiated''),
              SmDeleteEndpointConfig n]
             @ (case sm_delete_endpoint_config p (t @ [Boto3Client (py ''sagemaker''),
                       Print ([0x1F5D1, 0xFE0F] @ py '' Deleting endpoint: '' @ n),
                       SmDeleteEndpoint n,
                       Print ([0x2705] @ py '' Endpoint deletion initiated''),
                       SmDeleteEndpointConfig n]) of
                  Inl e \<Rightarrow> []
                | Inr _ \<Rightarrow> [Print ([0x2705] @ py '' Endpoint configuration deleted'')])"
    by (simp add: cleanup_endpoint_def stmt_defs new_events_def split: sum.splits)
qed

theorem config_deleted_after_endpoint_witness:
  "delete_endpoint config_locked (py ''demo-ep'') [] =
     (Inr (), [Boto3Client (py ''sagemaker''),
        Print ([0x1F5D1, 0xFE0F] @ py ''  Deleting endpoint: '' @ py ''demo-ep''),
        SmDeleteEndpoint (py ''demo-ep''),
        Print ([0x2713] @ py '' Endpoint deleted successfully''),
        SmDeleteEndpointConfig (py ''demo-ep'')])
   \<and> cleanup_endpoint mock_provider (py ''demo-ep'') [] =
     (Inr (), [Boto3Client (py ''sagemaker''),
        Print ([0x1F5D1, 0xFE0F] @ py '' Deleting endpoint: '' @ py ''demo-ep''),
        SmDeleteEndpoint (py ''demo-ep''),
        Print ([0x2705] @ py '' Endpoint deletion initiated''),
        SmDeleteEndpointConfig (py ''demo-ep''),
        Print ([0x2705] @ py '' Endpoint configuration deleted'')])"
  using config_deleted_after_endpoint [of config_locked "py ''demo-ep''" "[]"]
    config_deleted_after_endpoint [of mock_provider "py ''demo-ep''" "[]"]
  by (simp add: config_locked_def mock_provider_def new_events_def prod_eq_iff)

text \<open>
  The claim C3 as stated fails where the request to delete the endpoint is refused: the
  error is reported and the deletion of the configuration is never attempted.
\<close>

theorem config_not_attempted_counterexample:
  "delete_endpoint unknown_endpoint (py ''demo-ep'') [] =
     (Inr (), [Boto3Client (py ''sagemaker''),
        Print ([0x1F5D1, 0xFE0F] @ py ''  Deleting endpoint: '' @ py ''demo-ep''),
        SmDeleteEndpoint (py ''demo-ep''),
        Print (py ''Error deleting endpoint: '' @ exn_str (endpoint_missing_error
           (py ''DeleteEndpoint'') [] (py ''Could not find endpoint demo-ep.'')))])
   \<and> cleanup_endpoint unknown_endpoint (py ''demo-ep'') [] =
     (Inr (), [Boto3Client (py ''sagemaker''),
        Print ([0x1F5D1, 0xFE0F] @ py '' Deleting endpoint: '' @ py ''demo-ep''),
        SmDeleteEndpoint (py ''demo-ep''),
        Print ([0x274C] @ py '' Error deleting endpoint: '' @ exn_str (endpoint_missing_error
           (py ''DeleteEndpoint'') [] (py ''Could not find endpoint demo-ep.'')))])"
  by (simp add: delete_endpoint_def cleanup_endpoint_def stmt_defs unknown_endpoint_def
      mock_provider_def)

section \<open>The smoke tester\<close>

lemma test_query_run: "test_query p predictor i query t = (Inr (), t @ query_events p predictor i query t)"
  by (simp add: test_query_def query_events_def outcome_line_def first_item_def stmt_defs
      test_line_def failed_line_def response_line_def split: sum.splits list.splits)

lemma test_loop_run:
  "test_loop p predictor i queries t = (Inr (), t @ test_events p predictor i queries t)"
proof (induction queries arbitrary: i t)
  case Nil
  show ?case by (simp add: ret_def)
next
  case (Cons query queries)
  show ?case
    by (simp add: seq_def bnd_def test_query_run Cons.IH)
qed

lemma test_model_run:
  "test_model p predictor t =
     (Inr (), t @ Print (nl @ [0x1F9EA] @ py '' Testing deployed model...'')
        # test_events p predictor 1 test_queries
            (t @ [Print (nl @ [0x1F9EA] @ py '' Testing deployed model...'')]))"
  by (simp add: test_model_def seq_def bnd_def print_def test_loop_run)

lemma predicts_of_test_events:
  "filter is_predict (test_events p predictor i queries t)
     = map (\<lambda>query. PredictorPredict predictor (query_payload query)) queries"
  by (induction queries arbitrary: i t) (simp_all add: query_events_def)

lemma no_suggestion_in_test_events:
  "filter is_suggestion (test_events p predictor i queries t) = []"
  by (induction queries arbitrary: i t)
    (simp_all add: query_events_def is_suggestion_def test_line_def outcome_line_def
      failed_line_def response_line_def nl_def split: sum.splits list.splits)

lemma str_nat_small: "str_nat 1 = py ''1'' \<and> str_nat 2 = py ''2'' \<and> str_nat 3 = py ''3''"
  by (simp add: str_nat.simps digit_def py_def)

lemma str_nat_Suc_0: "str_nat (Suc 0) = [49]"
  by (simp add: str_nat.simps digit_def)

lemma test_events_three:
  "test_events p predictor (Suc 0) [q1, q2, q3] t =
     query_events p predictor (Suc 0) q1 t
     @ query_events p predictor 2 q2 (t @ query_events p predictor (Suc 0) q1 t)
     @ query_events p predictor 3 q3
         (t @ query_events p predictor (Suc 0) q1 t
            @ query_events p predictor 2 q2 (t @ query_events p predictor (Suc 0) q1 t))"
proof -
  have two: "(2::nat) = Suc (Suc 0)" and three: "(3::nat) = Suc (Suc (Suc 0))"
    by simp_all
  show ?thesis
    unfolding two three
    by (simp only: test_events.simps append_Nil2 append_assoc)
qed

text \<open>
  C7, as amended: \<open>test_model\<close> (the smoke tester of the second script) never raises
  and, whatever the provider answers, runs as follows: after its heading, for each of its
  three prompts in order, it announces the prompt, sends one request that carries the
  prompt and the generation parameters, and prints one line for the answer: the response
  cut to its first 200 characters when the request succeeds with a non-empty list, and a
  failure line with the text of the exception when it fails. So a prompt that fails is
  reported on its own and the remaining prompts are still sent. The smoke test inside
  \<open>deploy_model\<close> is different: once the endpoint is deployed it sends one request with
  the input only, prints the whole response, and a failure of it is reported as a failed
  deployment.
\<close>

theorem smoke_test_per_prompt:
  "(let parameters = PDict [(py ''max_new_tokens'', PInt 200), (py ''temperature'', PFloat ''0.7''),
                            (py ''top_p'', PFloat ''0.9''), (py ''do_sample'', PBool True)];
        heading = Print ([10, 0x1F9EA] @ py '' Testing deployed model...'');
        ask1 = Print ([10, 0x1F50D] @ py '' Test 1: Plan a 3-day itinerary for Paris'');
        send1 = PredictorPredict predictor (PDict [
           (py ''inputs'', PStr (py (''You are a helpful travel assistant. ''
               @ ''Plan a 3-day itinerary for Paris''))),
           (py ''parameters'', parameters)]);
        tell1 = Print (outcome_line 1 (predictor_predict p (t @ [heading, ask1, send1])));
        ask2 = Print ([10, 0x1F50D] @ py '' Test 2: What are the best travel tips for Japan?'');
        send2 = PredictorPredict predictor (PDict [
           (py ''inputs'', PStr (py (''You are a helpful travel assistant. ''
               @ ''What are the best travel tips for Japan?''))),
           (py ''parameters'', parameters)]);
        tell2 = Print (outcome_line 2 (predictor_predict p
           (t @ [heading, ask1, send1, tell1, ask2, send2])));
        ask3 = Print ([10, 0x1F50D]
           @ py '' Test 3: Recommend activities for a family vacation in Orlando'');
        send3 = PredictorPredict predictor (PDict [
           (py ''inputs'', PStr (py (''You are a helpful travel assistant. ''
               @ ''Recommend activities for a family vacation in Orlando''))),
           (py ''parameters'', parameters)]);
        tell3 = Print (outcome_line 3 (predictor_predict p
           (t @ [heading, ask1, send1, tell1, ask2, send2, tell2, ask3, send3])))
    in test_model p predictor t =
         (Inr (), t @ [heading, ask1, send1, tell1, ask2, send2, tell2, ask3, send3, tell3]))
   \<and> (\<forall>i e. outcome_line i (Inl e) =
          [0x274C] @ py '' Test '' @ str_nat i @ py '' failed: '' @ exn_str e)
   \<and> (\<forall>i (a::response) d ds. resp_items a = d # ds \<longrightarrow>
          outcome_line i (Inr a) =
            [0x2705] @ py '' Response: ''
              @ take 200 (case map_of d (py ''generated_text'') of
                            None \<Rightarrow> py ''No response'' | Some generated_text \<Rightarrow> generated_text)
              @ py ''...'')
   \<and> (\<forall>i (a::response). resp_items a = [] \<longrightarrow>
          outcome_line i (Inr a) =
            [0x274C] @ py '' Test '' @ str_nat i @ py '' failed: list index out of range'')
   \<and> str_nat 1 = py ''1'' \<and> str_nat 2 = py ''2'' \<and> str_nat 3 = py ''3''
   \<and> ((\<forall>h. boto3_client p h = Inr ()) \<and> (\<forall>h. iam_get_role p h = Inr r)
        \<and> (\<forall>h. hf_HuggingFaceModel p h = Inr ()) \<and> (\<forall>h. hf_deploy p h = Inr deployed)
        \<and> (\<forall>h. boto3_Session_region_name p h = Inr region)
      \<longrightarrow> filter is_predict (new_events t (deploy_model p instance_type endpoint_name t)) =
            [PredictorPredict deployed
               (PDict [(py ''inputs'', PStr (py ''Hello! I want to plan a trip to Japan.''))])]
          \<and> (\<forall>a. (\<forall>h. predictor_predict p h = Inr a) \<longrightarrow>
                Print ([0x2713] @ py '' Test response: '' @ resp_str a)
                  \<in> set (new_events t (deploy_model p instance_type endpoint_name t)))
          \<and> (\<forall>e. (\<forall>h. predictor_predict p h = Inl e) \<longrightarrow>
                Print ([10, 0x274C] @ py '' Deployment failed: '' @ exn_str e)
                  \<in> set (new_events t (deploy_model p instance_type endpoint_name t))))"
proof (intro conjI allI impI)
  show "(let parameters = PDict [(py ''max_new_tokens'', PInt 200), (py ''temperature'', PFloat ''0.7''),
                            (py ''top_p'', PFloat ''0.9''), (py ''do_sample'', PBool True)];
        heading = Print ([10, 0x1F9EA] @ py '' Testing deployed model...'');
        ask1 = Print ([10, 0x1F50D] @ py '' Test 1: Plan a 3-day itinerary for Paris'');
        send1 = PredictorPredict predictor (PDict [
           (py ''inputs'', PStr (py (''You are a helpful travel assistant. ''
               @ ''Plan a 3-day itinerary for Paris''))),
           (py ''parameters'', parameters)]);
        tell1 = Print (outcome_line 1 (predictor_predict p (t @ [heading, ask1, send1])));
        ask2 = Print ([10, 0x1F50D] @ py '' Test 2: What are the best travel tips for Japan?'');
        send2 = PredictorPredict predictor (PDict [
           (py ''inputs'', PStr (py (''You are a helpful travel assistant. ''
               @ ''What are the best travel tips for Japan?''))),
           (py ''parameters'', parameters)]);
        tell2 = Print (outcome_line 2 (predictor_predict p
           (t @ [heading, ask1, send1, tell1, ask2, send2])));
        ask3 = Print ([10, 0x1F50D]
           @ py '' Test 3: Recommend activities for a family vacation in Orlando'');
        send3 = PredictorPredict predictor (PDict [
           (py ''inputs'', PStr (py (''You are a helpful travel assistant. ''
               @ ''Recommend activities for a family vacation in Orlando''))),
           (py ''parameters'', parameters)]);
        tell3 = Print (outcome_line 3 (predictor_predict p
           (t @ [heading, ask1, send1, tell1, ask2, send2, tell2, ask3, send3])))
    in test_model p predictor t =
         (Inr (), t @ [heading, ask1, send1, tell1, ask2, send2, tell2, ask3, send3, tell3]))"
    by (simp add: Let_def test_model_run test_queries_def test_events_three query_events_def
        test_line_def query_payload_def str_nat_small str_nat_Suc_0 nl_def py_def
        del: test_events.simps)
next
  fix i e
  show "outcome_line i (Inl e) = [0x274C] @ py '' Test '' @ str_nat i @ py '' failed: '' @ exn_str e"
    by (simp add: outcome_line_def failed_line_def)
next
  fix i and a :: response and d ds
  assume "resp_items a = d # ds"
  then show "outcome_line i (Inr a) =
            [0x2705] @ py '' Response: ''
              @ take 200 (case map_of d (py ''generated_text'') of
                            None \<Rightarrow> py ''No response'' | Some generated_text \<Rightarrow> generated_text)
              @ py ''...''"
    by (simp add: outcome_line_def response_line_def dict_get_def)
next
  fix i and a :: response
  assume "resp_items a = []"
  then show "outcome_line i (Inr a) =
            [0x274C] @ py '' Test '' @ str_nat i @ py '' failed: list index out of range''"
    by (simp add: outcome_line_def failed_line_def py_def)
next
  show "str_nat 1 = py ''1''" and "str_nat 2 = py ''2''" and "str_nat 3 = py ''3''"
    using str_nat_small by simp_all
next
  assume coop: "(\<forall>h. boto3_client p h = Inr ()) \<and> (\<forall>h. iam_get_role p h = Inr r)
        \<and> (\<forall>h. hf_HuggingFaceModel p h = Inr ()) \<and> (\<forall>h. hf_deploy p h = Inr deployed)
        \<and> (\<forall>h. boto3_Session_region_name p h = Inr region)"
  then show "filter is_predict (new_events t (deploy_model p instance_type endpoint_name t)) =
            [PredictorPredict deployed
               (PDict [(py ''inputs'', PStr (py ''Hello! I want to plan a trip to Japan.''))])]"
    by (simp add: run_defs test_payload_def split: sum.splits)
  {
    fix a
    assume "\<forall>h. predictor_predict p h = Inr a"
    with coop show "Print ([0x2713] @ py '' Test response: '' @ resp_str a)
                  \<in> set (new_events t (deploy_model p instance_type endpoint_name t))"
      by (simp add: run_defs)
  }
  {
    fix e
    assume "\<forall>h. predictor_predict p h = Inl e"
    with coop show "Print ([10, 0x274C] @ py '' Deployment failed: '' @ exn_str e)
                  \<in> set (new_events t (deploy_model p instance_type endpoint_name t))"
      by (simp add: run_defs nl_def)
  }
qed

theorem smoke_test_per_prompt_witness:
  "test_model mock_provider mock_predictor [] =
     (Inr (), [
        Print ([10, 0x1F9EA] @ py '' Testing deployed model...''),
        Print ([10, 0x1F50D] @ py '' Test 1: Plan a 3-day itinerary for Paris''),
        PredictorPredict mock_predictor (query_payload (py ''Plan a 3-day itinerary for Paris'')),
        Print ([0x2705] @ py '' Response: '' @ py (replicate 200 CHR ''a'') @ py ''...''),
        Print ([10, 0x1F50D] @ py '' Test 2: What are the best travel tips for Japan?''),
        PredictorPredict mock_predictor
          (query_payload (py ''What are the best travel tips for Japan?'')),
        Print ([0x2705] @ py '' Response: '' @ py (replicate 200 CHR ''a'') @ py ''...''),
        Print ([10, 0x1F50D] @ py '' Test 3: Recommend activities for a family vacation in Orlando''),
        PredictorPredict mock_predictor
          (query_payload (py ''Recommend activities for a family vacation in Orlando'')),
        Print ([0x2705] @ py '' Response: '' @ py (replicate 200 CHR ''a'') @ py ''...'')])
   \<and> Print ([0x2713] @ py '' Test response: '' @ resp_str mock_response)
        \<in> set (new_events [] (deploy_model mock_provider (py ''ml.t2.medium'') (py ''demo-ep'') []))"
  using smoke_test_per_prompt [of mock_predictor mock_provider "[]" mock_role mock_predictor
      "Some (py ''us-east-1'')" "py ''ml.t2.medium''" "py ''demo-ep''"]
  by (simp add: Let_def mock_provider_def mock_response_def query_payload_def py_def)

text \<open>
  The claim C7 as stated fails for the smoke test inside \<open>deploy_model\<close>: its one
  request carries the input only, without generation parameters, and the response is
  printed in full (here 324 characters).
\<close>

theorem inline_smoke_test_counterexample:
  "filter is_predict (snd (deploy_model mock_provider (py ''ml.t2.medium'') (py ''demo-ep'') []))
     = [PredictorPredict mock_predictor test_payload]
   \<and> pv_item test_payload (py ''parameters'') = None
   \<and> Print ([0x2713] @ py '' Test response: '' @ resp_str mock_response)
        \<in> set (snd (deploy_model mock_provider (py ''ml.t2.medium'') (py ''demo-ep'') []))
   \<and> length (resp_str mock_response) = 324"
proof (intro conjI)
  show "filter is_predict (snd (deploy_model mock_provider (py ''ml.t2.medium'') (py ''demo-ep'') []))
     = [PredictorPredict mock_predictor test_payload]"
    by (simp add: run_defs mock_provider_def)
  show "pv_item test_payload (py ''parameters'') = None"
    by (simp add: test_payload_def py_def)
  show "Print ([0x2713] @ py '' Test response: '' @ resp_str mock_response)
        \<in> set (snd (deploy_model mock_provider (py ''ml.t2.medium'') (py ''demo-ep'') []))"
    by (simp add: run_defs mock_provider_def)
  show "length (resp_str mock_response) = 324"
    by (simp add: mock_response_def py_def apostrophe_def)
qed

section \<open>The travel deployment\<close>

lemma emits_first_item: "emits P (first_item items)"
  by (cases items) (simp_all add: first_item_def emits_ret emits_raise)

lemma emits_test_query: "emits (\<lambda>ev. \<not> is_suggestion ev) (test_query p predictor i query)"
  unfolding test_query_def
  by (intro emits_intros emits_first_item) (simp_all add: is_suggestion_def nl_def)

lemma emits_test_loop:
  "emits (\<lambda>ev. \<not> is_suggestion ev) (test_loop p predictor i queries)"
  by (induction queries arbitrary: i) (auto intro: emits_ret emits_seq emits_test_query)

lemma emits_test_model: "emits (\<lambda>ev. \<not> is_suggestion ev) (test_model p predictor)"
  unfolding test_model_def
  by (intro emits_seq emits_print emits_test_loop) (simp add: is_suggestion_def nl_def)

lemma emits_deploy_travel_model: "emits (\<lambda>ev. \<not> is_suggestion ev) (deploy_travel_model p)"
  unfolding deploy_travel_model_def block.simps
  by (intro emits_intros emits_test_model) (simp_all add: is_suggestion_def nl_def)

lemma is_suggestion_line: "is_suggestion (Print (suggestion_line name))"
  using startswith_append
    [of "[0x1F4DD] @ py '' Update your .env file with: SAGEMAKER_ENDPOINT_NAME=''" name]
  by (simp add: is_suggestion_def suggestion_line_def)

lemma suggest_env_run:
  "suggest_env name t =
     (Inr (), t @ [Print (nl @ [0x1F389] @ py '' Deployment complete!''),
        Print (suggestion_line name)])"
  by (simp add: suggest_env_def suggestion_line_def stmt_defs)

text \<open>
  C10: \<open>deploy_travel_model\<close> returns \<open>None\<close> when acquiring the execution role
  fails; once the role is acquired and the descriptor is built, it returns \<open>None\<close>
  when the deploy call raises and the name of the deployed endpoint when the deploy call
  succeeds. The deploy action of \<open>main\<close> prints the \<open>.env\<close> suggestion only for a
  returned name (a non-empty one), never when \<open>None\<close> is returned.
\<close>

theorem deploy_travel_model_result:
  "(role_fails p t \<longrightarrow> fst (deploy_travel_model p t) = Inr None)
   \<and> (role_acquired p t role \<and> descriptor_built p t role \<longrightarrow>
        fst (deploy_travel_model p t) =
          (case deploy_answer p t role of
             Inl e \<Rightarrow> Inr None
           | Inr predictor \<Rightarrow> Inr (Some (predictor_endpoint_name predictor))))
   \<and> filter is_suggestion (new_events t (main p (args \<lparr> arg_action := Deploy \<rparr>) t)) =
        (case fst (deploy_travel_model p t) of
           Inl e \<Rightarrow> []
         | Inr None \<Rightarrow> []
         | Inr (Some name) \<Rightarrow> if name = [] then [] else [Print (suggestion_line name)])"
proof (intro conjI impI)
  assume "role_fails p t"
  then show "fst (deploy_travel_model p t) = Inr None"
    by (auto simp: role_fails_def travel_start_def deploy_travel_model_def stmt_defs isl_def
        split: sum.splits)
next
  assume "role_acquired p t role \<and> descriptor_built p t role"
  then show "fst (deploy_travel_model p t) =
          (case deploy_answer p t role of
             Inl e \<Rightarrow> Inr None
           | Inr predictor \<Rightarrow> Inr (Some (predictor_endpoint_name predictor)))"
    by (simp add: role_acquired_def descriptor_built_def deploy_answer_def travel_prelude_def
        travel_start_def deploy_travel_model_def stmt_defs test_model_run split: sum.splits)
next
  from emits_deploy_travel_model [of p]
  obtain evs where run: "snd (deploy_travel_model p t) = t @ evs"
    and quiet: "list_all (\<lambda>ev. \<not> is_suggestion ev) evs"
    unfolding emits_def by blast
  from quiet have none: "filter is_suggestion evs = []"
    by (simp add: list_all_iff filter_empty_conv)
  obtain r where r: "deploy_travel_model p t = (r, t @ evs)"
    using run by (cases "deploy_travel_model p t") simp
  show "filter is_suggestion (new_events t (main p (args \<lparr> arg_action := Deploy \<rparr>) t)) =
        (case fst (deploy_travel_model p t) of
           Inl e \<Rightarrow> []
         | Inr None \<Rightarrow> []
         | Inr (Some name) \<Rightarrow> if name = [] then [] else [Print (suggestion_line name)])"
    using r none is_suggestion_line
    by (auto simp: main_def bnd_def ret_def new_events_def truthy_def suggest_env_run
        is_suggestion_def nl_def split: sum.splits option.splits)
qed

theorem deploy_travel_model_result_witness:
  "fst (deploy_travel_model mock_provider []) = Inr (Some (py ''travel-assistant-endpoint''))
   \<and> fst (deploy_travel_model outside_sagemaker []) = Inr None
   \<and> filter is_suggestion (new_events [] (main mock_provider default_script_args []))
       = [Print (suggestion_line (py ''travel-assistant-endpoint''))]
   \<and> filter is_suggestion (new_events [] (main outside_sagemaker default_script_args [])) = []"
  using deploy_travel_model_result [of mock_provider "[]" "Arn mock_role" default_script_args]
    deploy_travel_model_result [of outside_sagemaker "[]" "Arn mock_role" default_script_args]
  by (simp add: role_fails_def role_acquired_def descriptor_built_def deploy_answer_def
      mock_provider_def outside_sagemaker_def mock_predictor_def default_script_args_def py_def)

section \<open>Absorbing failures\<close>




end
